theory Spec2Isabelle
  imports Main
begin

section \<open>The host: bus, file system and logger as an explicit environment\<close>

text \<open>
  The package \<^verbatim>\<open>systemd\<close> talks to three collaborators that are not part of it: the
  manager's control bus (go-systemd's \<^verbatim>\<open>dbus.Conn\<close>), the operating system
  (\<^verbatim>\<open>os\<close>, \<^verbatim>\<open>os/user\<close>) and a zap logger. Every call of the source to one of them is
  an \<open>event\<close> that is appended to a trace, together with the answer the host gave. The
  host itself is a record of functions from the trace so far to the next answer, so it
  may answer the same question differently at different moments.

  A Go \<^verbatim>\<open>error\<close> is modelled by its message; \<^verbatim>\<open>nil\<close> is \<open>None\<close>.
\<close>

type_synonym error = string

datatype level = InfoLevel | WarnLevel | ErrorLevel

text \<open>The three fields of \<^verbatim>\<open>dbus.UnitStatus\<close> that the package reads.\<close>

record UnitStatus =
  UnitName :: string
  ActiveState :: string
  SubState :: string

text \<open>The two fields of \<^verbatim>\<open>user.User\<close> that the package reads.\<close>

record User =
  Uid :: string
  Gid :: string

text \<open>
  The four job methods of the connection that take a completion channel:
  \<^verbatim>\<open>StartUnitContext\<close>, \<^verbatim>\<open>StopUnitContext\<close>, \<^verbatim>\<open>RestartUnitContext\<close>,
  \<^verbatim>\<open>ReloadOrRestartUnitContext\<close>.
\<close>

datatype job_method = StartUnit | StopUnit | RestartUnit | ReloadOrRestartUnit

datatype event =
    Connect "error option"
  | Job job_method string "error option"
  | KillUnit string int
  | Recv "string option"
  | ListUnits string "error + UnitStatus list"
  | DaemonReload "error option"
  | Log level string "(string \<times> string) list"
  | OsRemove string "error option"
  | OsSymlink string string "error option"
  | OsStat string "error + bool"
  | OsExecutable "error + string"
  | OsWriteFile string string "error option"
  | OsReadFile string "error + string"
  | Println string
  | UserCurrent "error + User"

type_synonym trace = "event list"

text \<open>
  \<open>Recv None\<close> is a receive on the completion channel that is never answered: the
  source has no timeout, so the operation stays blocked there. \<open>OsStat p (Inr d)\<close> is
  a successful \<^verbatim>\<open>os.Stat\<close> with \<^verbatim>\<open>IsDir() = d\<close>.
\<close>

record host =
  NewSystemConnectionContext :: "trace \<Rightarrow> error option"
  job_call :: "trace \<Rightarrow> job_method \<Rightarrow> string \<Rightarrow> error option"
  chan_recv :: "trace \<Rightarrow> string option"
  ListUnitsByPatternsContext :: "trace \<Rightarrow> string \<Rightarrow> error + UnitStatus list"
  ReloadContext :: "trace \<Rightarrow> error option"
  os_Remove :: "trace \<Rightarrow> string \<Rightarrow> error option"
  os_Symlink :: "trace \<Rightarrow> string \<Rightarrow> string \<Rightarrow> error option"
  os_Stat :: "trace \<Rightarrow> string \<Rightarrow> error + bool"
  os_Executable :: "trace \<Rightarrow> error + string"
  os_WriteFile :: "trace \<Rightarrow> string \<Rightarrow> string \<Rightarrow> error option"
  os_ReadFile :: "trace \<Rightarrow> string \<Rightarrow> error + string"
  user_Current :: "trace \<Rightarrow> error + User"
  CreateUnit :: "bool \<Rightarrow> string \<Rightarrow> string \<Rightarrow> string \<Rightarrow> string list \<Rightarrow> error + string"

text \<open>
  \<open>CreateUnit\<close> is the package's unit template renderer, a pure function of its
  arguments that is defined in another file of the package; here it is a parameter, kept
  in the host record.

  An operation either returns or stays blocked on the completion channel.
\<close>

datatype 'a outcome = Returned 'a | Blocked

subsection \<open>One definition per call of the source\<close>

definition connect :: "host \<Rightarrow> trace \<Rightarrow> error option \<times> trace" where
  "connect H tr = (let r = NewSystemConnectionContext H tr in (r, tr @ [Connect r]))"

definition job :: "host \<Rightarrow> job_method \<Rightarrow> string \<Rightarrow> trace \<Rightarrow> error option \<times> trace" where
  "job H m name tr = (let r = job_call H tr m name in (r, tr @ [Job m name r]))"

definition receive :: "host \<Rightarrow> trace \<Rightarrow> string option \<times> trace" where
  "receive H tr = (let r = chan_recv H tr in (r, tr @ [Recv r]))"

definition kill_unit :: "string \<Rightarrow> int \<Rightarrow> trace \<Rightarrow> trace" where
  "kill_unit name sig tr = tr @ [KillUnit name sig]"

definition list_units :: "host \<Rightarrow> string \<Rightarrow> trace \<Rightarrow> (error + UnitStatus list) \<times> trace" where
  "list_units H pat tr = (let r = ListUnitsByPatternsContext H tr pat in (r, tr @ [ListUnits pat r]))"

definition daemon_reload :: "host \<Rightarrow> trace \<Rightarrow> error option \<times> trace" where
  "daemon_reload H tr = (let r = ReloadContext H tr in (r, tr @ [DaemonReload r]))"

definition logger :: "level \<Rightarrow> string \<Rightarrow> (string \<times> string) list \<Rightarrow> trace \<Rightarrow> trace" where
  "logger lvl msg kvs tr = tr @ [Log lvl msg kvs]"

definition os_remove :: "host \<Rightarrow> string \<Rightarrow> trace \<Rightarrow> error option \<times> trace" where
  "os_remove H p tr = (let r = os_Remove H tr p in (r, tr @ [OsRemove p r]))"

definition os_symlink :: "host \<Rightarrow> string \<Rightarrow> string \<Rightarrow> trace \<Rightarrow> error option \<times> trace" where
  "os_symlink H origin target tr =
     (let r = os_Symlink H tr origin target in (r, tr @ [OsSymlink origin target r]))"

definition os_stat :: "host \<Rightarrow> string \<Rightarrow> trace \<Rightarrow> (error + bool) \<times> trace" where
  "os_stat H p tr = (let r = os_Stat H tr p in (r, tr @ [OsStat p r]))"

definition os_executable :: "host \<Rightarrow> trace \<Rightarrow> (error + string) \<times> trace" where
  "os_executable H tr = (let r = os_Executable H tr in (r, tr @ [OsExecutable r]))"

definition os_write_file :: "host \<Rightarrow> string \<Rightarrow> string \<Rightarrow> trace \<Rightarrow> error option \<times> trace" where
  "os_write_file H p buf tr = (let r = os_WriteFile H tr p buf in (r, tr @ [OsWriteFile p buf r]))"

definition os_read_file :: "host \<Rightarrow> string \<Rightarrow> trace \<Rightarrow> (error + string) \<times> trace" where
  "os_read_file H p tr = (let r = os_ReadFile H tr p in (r, tr @ [OsReadFile p r]))"

definition println :: "string \<Rightarrow> trace \<Rightarrow> trace" where
  "println line tr = tr @ [Println line]"

definition user_current :: "host \<Rightarrow> trace \<Rightarrow> (error + User) \<times> trace" where
  "user_current H tr = (let r = user_Current H tr in (r, tr @ [UserCurrent r]))"

subsection \<open>\<^verbatim>\<open>strconv.Itoa\<close>\<close>

definition digit :: "nat \<Rightarrow> char" where
  "digit d = char_of (48 + d)"

function utoa :: "nat \<Rightarrow> string" where
  "utoa n = (if n < 10 then [digit n] else utoa (n div 10) @ [digit (n mod 10)])"
  by pat_completeness auto
termination
  by (relation "measure id") auto

definition Itoa :: "int \<Rightarrow> string" where
  "Itoa i = (if i < 0 then CHR ''-'' # utoa (nat (- i)) else utoa (nat i))"

section \<open>The service descriptor\<close>

text \<open>
  \<^verbatim>\<open>type Systemd struct\<close>. The \<^verbatim>\<open>logger\<close> field is the logger of the host: what is
  written to it is the \<open>Log\<close> events of the trace.
\<close>

record Systemd =
  Name :: string
  Description :: string
  Version :: string
  AppID :: string

definition New :: "string \<Rightarrow> string \<Rightarrow> string \<Rightarrow> string \<Rightarrow> Systemd" where
  "New name desc version appID =
     \<lparr>Name = name, Description = desc, Version = version, AppID = appID\<rparr>"

definition UnitFile :: "Systemd \<Rightarrow> bool \<Rightarrow> string" where
  "UnitFile s mutli =
     (if mutli then ''/etc/systemd/system/'' @ Name s @ ''@.service''
      else ''/etc/systemd/system/'' @ Name s @ ''.service'')"

section \<open>Start\<close>

text \<open>
  The counted loop \<^verbatim>\<open>for i := 1; i <= num; i++\<close>. Go's \<^verbatim>\<open>int\<close> has 64 bits; the
  counter is an unbounded \<open>int\<close> here, which is the same loop for every \<open>num\<close> below
  \<open>2^63 - 1\<close>, where \<^verbatim>\<open>i++\<close> cannot wrap.
\<close>

function Start_num_loop :: "Systemd \<Rightarrow> host \<Rightarrow> int \<Rightarrow> int \<Rightarrow> trace \<Rightarrow> unit outcome \<times> trace" where
  "Start_num_loop s H num i tr =
     (if i \<le> num then
        (let name = Name s @ ''@'' @ Itoa i @ ''.service'' in
         case job H StartUnit name tr of
           (Some err, tr1) \<Rightarrow> Start_num_loop s H num (i + 1) (logger WarnLevel err [] tr1)
         | (None, tr1) \<Rightarrow>
             (case receive H tr1 of
                (None, tr2) \<Rightarrow> (Blocked, tr2)
              | (Some v, tr2) \<Rightarrow>
                  Start_num_loop s H num (i + 1)
                    (if v = ''failed''
                     then logger ErrorLevel (''Started [ '' @ name @ '' ] '' @ v) [] tr2
                     else logger InfoLevel (''Started [ '' @ name @ '' ] '' @ v) [] tr2)))
      else (Returned (), tr))"
  by pat_completeness auto
termination
  by (relation "measure (\<lambda>(s, H, num, i, tr). nat (num + 1 - i))") auto

fun Start_tags_loop :: "Systemd \<Rightarrow> host \<Rightarrow> string list \<Rightarrow> trace \<Rightarrow> unit outcome \<times> trace" where
  "Start_tags_loop s H [] tr = (Returned (), tr)"
| "Start_tags_loop s H (tag # tags) tr =
     (let name = Name s @ ''@'' @ tag @ ''.service'' in
      case job H StartUnit name tr of
        (Some err, tr1) \<Rightarrow> Start_tags_loop s H tags (logger WarnLevel err [] tr1)
      | (None, tr1) \<Rightarrow>
          (case receive H tr1 of
             (None, tr2) \<Rightarrow> (Blocked, tr2)
           | (Some v, tr2) \<Rightarrow>
               Start_tags_loop s H tags
                 (if v = ''failed''
                  then logger ErrorLevel (''Started [ '' @ name @ '' ] '' @ v) [] tr2
                  else logger InfoLevel (''Started [ '' @ name @ '' ] '' @ v) [] tr2)))"

text \<open>
  The last branch of \<^verbatim>\<open>Start\<close>: the bare name, then \<^verbatim>\<open>@default\<close> when the manager
  rejects it; \<open>name\<close> is the name of the call that was accepted.
\<close>

definition Start_bare :: "Systemd \<Rightarrow> host \<Rightarrow> trace \<Rightarrow> error option outcome \<times> trace" where
  "Start_bare s H tr =
     (let finish = (\<lambda>name tr1.
            case receive H tr1 of
              (None, tr2) \<Rightarrow> (Blocked, tr2)
            | (Some v, tr2) \<Rightarrow>
                (Returned None,
                 if v = ''failed''
                 then logger ErrorLevel (''Started [ '' @ name @ '' ] '' @ v) [] tr2
                 else logger InfoLevel (''Started [ '' @ name @ '' ] '' @ v) [] tr2))
      in case job H StartUnit (Name s @ ''.service'') tr of
           (None, tr1) \<Rightarrow> finish (Name s @ ''.service'') tr1
         | (Some _, tr1) \<Rightarrow>
             (case job H StartUnit (Name s @ ''@default.service'') tr1 of
                (Some err, tr2) \<Rightarrow> (Returned (Some err), tr2)
              | (None, tr2) \<Rightarrow> finish (Name s @ ''@default.service'') tr2))"

definition lift_loop :: "unit outcome \<times> trace \<Rightarrow> error option outcome \<times> trace" where
  "lift_loop r = (case r of (Returned _, tr) \<Rightarrow> (Returned None, tr) | (Blocked, tr) \<Rightarrow> (Blocked, tr))"

definition Start :: "Systemd \<Rightarrow> host \<Rightarrow> int \<Rightarrow> string list \<Rightarrow> trace \<Rightarrow> error option outcome \<times> trace" where
  "Start s H num tags tr =
     (case connect H tr of
        (Some err, tr0) \<Rightarrow> (Returned (Some err), tr0)
      | (None, tr0) \<Rightarrow>
          if num > 0 then lift_loop (Start_num_loop s H num 1 tr0)
          else if length tags > 0 then lift_loop (Start_tags_loop s H tags tr0)
          else Start_bare s H tr0)"

section \<open>Status\<close>

fun Status_show_loop :: "UnitStatus list \<Rightarrow> trace \<Rightarrow> trace" where
  "Status_show_loop [] tr = tr"
| "Status_show_loop (item # items) tr =
     Status_show_loop items
       (if SubState item = ''running''
        then logger InfoLevel ''Status''
               [(''name'', UnitName item), (''active'', ActiveState item), (''sub'', SubState item)] tr
        else logger WarnLevel ''Status''
               [(''name'', UnitName item), (''active'', ActiveState item), (''sub'', SubState item)] tr)"

definition Status :: "Systemd \<Rightarrow> host \<Rightarrow> bool \<Rightarrow> trace \<Rightarrow> (error + UnitStatus list) \<times> trace" where
  "Status s H show tr =
     (case connect H tr of
        (Some err, tr0) \<Rightarrow> (Inl err, tr0)
      | (None, tr0) \<Rightarrow>
          (case list_units H (Name s @ ''*'') tr0 of
             (Inl err, tr1) \<Rightarrow> (Inl err, tr1)
           | (Inr items, tr1) \<Rightarrow>
               (Inr items, if show then Status_show_loop items tr1 else tr1)))"

section \<open>Stop\<close>

fun Stop_all_loop :: "host \<Rightarrow> UnitStatus list \<Rightarrow> trace \<Rightarrow> unit outcome \<times> trace" where
  "Stop_all_loop H [] tr = (Returned (), tr)"
| "Stop_all_loop H (item # items) tr =
     (case job H StopUnit (UnitName item) tr of
        (Some err, tr1) \<Rightarrow> Stop_all_loop H items (logger WarnLevel err [] tr1)
      | (None, tr1) \<Rightarrow>
          (case receive H tr1 of
             (None, tr2) \<Rightarrow> (Blocked, tr2)
           | (Some v, tr2) \<Rightarrow>
               Stop_all_loop H items
                 (if v = ''failed''
                  then logger ErrorLevel (''Stop [ '' @ UnitName item @ ''] '' @ v) [] tr2
                  else logger InfoLevel (''Stop [ '' @ UnitName item @ '' ] '' @ v) [] tr2)))"

fun Stop_tags_loop :: "Systemd \<Rightarrow> host \<Rightarrow> string list \<Rightarrow> trace \<Rightarrow> unit outcome \<times> trace" where
  "Stop_tags_loop s H [] tr = (Returned (), tr)"
| "Stop_tags_loop s H (tag # tags) tr =
     (let name = Name s @ ''@'' @ tag @ ''.service'' in
      case job H StopUnit name tr of
        (Some err, tr1) \<Rightarrow> Stop_tags_loop s H tags (logger WarnLevel err [] tr1)
      | (None, tr1) \<Rightarrow>
          (case receive H tr1 of
             (None, tr2) \<Rightarrow> (Blocked, tr2)
           | (Some v, tr2) \<Rightarrow>
               Stop_tags_loop s H tags
                 (if v = ''failed''
                  then logger ErrorLevel (''Stop ['' @ name @ ''] '' @ v) [] tr2
                  else logger InfoLevel (''Stop [ '' @ name @ '' ] '' @ v) [] tr2)))"

definition Stop_bare :: "Systemd \<Rightarrow> host \<Rightarrow> trace \<Rightarrow> error option outcome \<times> trace" where
  "Stop_bare s H tr =
     (let finish = (\<lambda>name tr1.
            case receive H tr1 of
              (None, tr2) \<Rightarrow> (Blocked, tr2)
            | (Some v, tr2) \<Rightarrow>
                (Returned None,
                 if v = ''failed''
                 then logger ErrorLevel (''Stop ['' @ name @ ''] '' @ v) [] tr2
                 else logger InfoLevel (''Stop [ '' @ name @ '' ] '' @ v) [] tr2))
      in case job H StopUnit (Name s @ ''.service'') tr of
           (None, tr1) \<Rightarrow> finish (Name s @ ''.service'') tr1
         | (Some _, tr1) \<Rightarrow>
             (case job H StopUnit (Name s @ ''@default.service'') tr1 of
                (Some err, tr2) \<Rightarrow> (Returned (Some err), tr2)
              | (None, tr2) \<Rightarrow> finish (Name s @ ''@default.service'') tr2))"

definition Stop :: "Systemd \<Rightarrow> host \<Rightarrow> bool \<Rightarrow> string list \<Rightarrow> trace \<Rightarrow> error option outcome \<times> trace" where
  "Stop s H all tags tr =
     (case connect H tr of
        (Some err, tr0) \<Rightarrow> (Returned (Some err), tr0)
      | (None, tr0) \<Rightarrow>
          if all then
            (case Status s H False tr0 of
               (Inl err, tr1) \<Rightarrow> (Returned (Some err), tr1)
             | (Inr items, tr1) \<Rightarrow> lift_loop (Stop_all_loop H items tr1))
          else if length tags > 0 then lift_loop (Stop_tags_loop s H tags tr0)
          else Stop_bare s H tr0)"

section \<open>Enable and Disable\<close>

definition fileExists :: "host \<Rightarrow> string \<Rightarrow> trace \<Rightarrow> bool \<times> trace" where
  "fileExists H name tr =
     (case os_stat H name tr of
        (Inl err, tr1) \<Rightarrow> (False, tr1)
      | (Inr isDir, tr1) \<Rightarrow> (\<not> isDir, tr1))"

text \<open>\<^verbatim>\<open>fmt.Sprintf("/etc/systemd/system/multi-user.target.wants/%s@%s.service", name, tag)\<close>\<close>

definition wants_instance :: "string \<Rightarrow> string \<Rightarrow> string" where
  "wants_instance name tag =
     ''/etc/systemd/system/multi-user.target.wants/'' @ name @ ''@'' @ tag @ ''.service''"

fun Enable_loop :: "Systemd \<Rightarrow> host \<Rightarrow> string \<Rightarrow> string list \<Rightarrow> trace \<Rightarrow> trace" where
  "Enable_loop s H origin [] tr = tr"
| "Enable_loop s H origin (tag # tags) tr =
     (let target = wants_instance (Name s) tag in
      case os_symlink H origin target tr of
        (Some err, tr1) \<Rightarrow>
          Enable_loop s H origin tags
            (logger ErrorLevel ''Failed to create symlink''
               [(''origin'', origin), (''target'', target), (''error'', err)] tr1)
      | (None, tr1) \<Rightarrow>
          Enable_loop s H origin tags
            (logger InfoLevel ''Created symlink''
               [(''target'', target), (''origin'', origin)] tr1))"

definition Enable :: "Systemd \<Rightarrow> host \<Rightarrow> string list \<Rightarrow> trace \<Rightarrow> error option \<times> trace" where
  "Enable s H tags tr =
     (let origin = ''/etc/systemd/system/'' @ Name s @ ''@.service'' in
      case fileExists H origin tr of
        (True, tr1) \<Rightarrow>
          (None, Enable_loop s H origin (if length tags = 0 then [''default''] else tags) tr1)
      | (False, tr1) \<Rightarrow>
          (let origin = ''/etc/systemd/system/'' @ Name s @ ''.service'' in
           case fileExists H origin tr1 of
             (True, tr2) \<Rightarrow>
               (let target = ''/etc/systemd/system/multi-user.target.wants/'' @ Name s @ ''.service'' in
                case os_symlink H origin target tr2 of
                  (Some err, tr3) \<Rightarrow>
                    (None, logger ErrorLevel ''Failed to create symlink''
                             [(''origin'', origin), (''target'', target), (''error'', err)] tr3)
                | (None, tr3) \<Rightarrow>
                    (None, logger InfoLevel ''Created symlink''
                             [(''target'', target), (''origin'', origin)] tr3))
           | (False, tr2) \<Rightarrow> (Some ''service is not installed'', tr2)))"

text \<open>
  In \<^verbatim>\<open>Disable\<close> the logged field \<^verbatim>\<open>target\<close> is the format string itself, in all three
  places.
\<close>

definition wants_pattern :: string where
  "wants_pattern = ''/etc/systemd/system/multi-user.target.wants/%s@%s.service''"

fun Disable_loop :: "Systemd \<Rightarrow> host \<Rightarrow> string list \<Rightarrow> trace \<Rightarrow> trace" where
  "Disable_loop s H [] tr = tr"
| "Disable_loop s H (tag # tags) tr =
     (case os_remove H (wants_instance (Name s) tag) tr of
        (Some err, tr1) \<Rightarrow>
          Disable_loop s H tags
            (logger ErrorLevel ''Failed to remove symlink''
               [(''target'', wants_pattern), (''error'', err)] tr1)
      | (None, tr1) \<Rightarrow> Disable_loop s H tags tr1)"

definition Disable :: "Systemd \<Rightarrow> host \<Rightarrow> string list \<Rightarrow> trace \<Rightarrow> error option \<times> trace" where
  "Disable s H tags tr =
     (if length tags > 0 then (None, Disable_loop s H tags tr)
      else
        (let tr2 =
           (case os_remove H (''/etc/systemd/system/multi-user.target.wants/'' @ Name s @ ''@default.service'') tr of
              (Some err, tr1) \<Rightarrow>
                logger WarnLevel ''Failed to remove symlink''
                  [(''target'', wants_pattern), (''error'', err)] tr1
            | (None, tr1) \<Rightarrow> tr1)
         in case os_remove H (''/etc/systemd/system/multi-user.target.wants/'' @ Name s @ ''.service'') tr2 of
              (Some err, tr3) \<Rightarrow>
                (None, logger WarnLevel ''Failed to remove symlink''
                         [(''target'', wants_pattern), (''error'', err)] tr3)
            | (None, tr3) \<Rightarrow> (None, tr3)))"

section \<open>Kill\<close>

text \<open>\<^verbatim>\<open>KillUnitContext\<close> returns nothing, so these loops have no error path.\<close>

fun Kill_all_loop :: "UnitStatus list \<Rightarrow> trace \<Rightarrow> trace" where
  "Kill_all_loop [] tr = tr"
| "Kill_all_loop (item # items) tr = Kill_all_loop items (kill_unit (UnitName item) 9 tr)"

fun Kill_tags_loop :: "Systemd \<Rightarrow> string list \<Rightarrow> trace \<Rightarrow> trace" where
  "Kill_tags_loop s [] tr = tr"
| "Kill_tags_loop s (tag # tags) tr =
     Kill_tags_loop s tags (kill_unit (Name s @ ''@'' @ tag @ ''.service'') 9 tr)"

definition Kill :: "Systemd \<Rightarrow> host \<Rightarrow> bool \<Rightarrow> string list \<Rightarrow> trace \<Rightarrow> error option \<times> trace" where
  "Kill s H all tags tr =
     (case connect H tr of
        (Some err, tr0) \<Rightarrow> (Some err, tr0)
      | (None, tr0) \<Rightarrow>
          if all then
            (case Status s H False tr0 of
               (Inl err, tr1) \<Rightarrow> (Some err, tr1)
             | (Inr items, tr1) \<Rightarrow> (None, Kill_all_loop items tr1))
          else if length tags > 0 then (None, Kill_tags_loop s tags tr0)
          else
            (None, kill_unit (Name s @ ''@default.service'') 9
                     (kill_unit (Name s @ ''default.service'') 9 tr0)))"

section \<open>Restart\<close>

fun Restart_all_loop :: "host \<Rightarrow> UnitStatus list \<Rightarrow> trace \<Rightarrow> unit outcome \<times> trace" where
  "Restart_all_loop H [] tr = (Returned (), tr)"
| "Restart_all_loop H (item # items) tr =
     (case job H RestartUnit (UnitName item) tr of
        (Some err, tr1) \<Rightarrow> Restart_all_loop H items (logger WarnLevel err [] tr1)
      | (None, tr1) \<Rightarrow>
          (case receive H tr1 of
             (None, tr2) \<Rightarrow> (Blocked, tr2)
           | (Some v, tr2) \<Rightarrow>
               Restart_all_loop H items
                 (if v = ''failed''
                  then logger ErrorLevel (''Restarted [ '' @ UnitName item @ ''] '' @ v) [] tr2
                  else logger InfoLevel (''Restarted [ '' @ UnitName item @ '' ] '' @ v) [] tr2)))"

fun Restart_tags_loop :: "Systemd \<Rightarrow> host \<Rightarrow> string list \<Rightarrow> trace \<Rightarrow> unit outcome \<times> trace" where
  "Restart_tags_loop s H [] tr = (Returned (), tr)"
| "Restart_tags_loop s H (tag # tags) tr =
     (let name = Name s @ ''@'' @ tag @ ''.service'' in
      case job H RestartUnit name tr of
        (Some err, tr1) \<Rightarrow> Restart_tags_loop s H tags (logger WarnLevel err [] tr1)
      | (None, tr1) \<Rightarrow>
          (case receive H tr1 of
             (None, tr2) \<Rightarrow> (Blocked, tr2)
           | (Some v, tr2) \<Rightarrow>
               Restart_tags_loop s H tags
                 (if v = ''failed''
                  then logger ErrorLevel (''Restarted [ '' @ name @ '' ] '' @ v) [] tr2
                  else logger InfoLevel (''Restarted [ '' @ name @ '' ] '' @ v) [] tr2)))"

definition Restart_bare :: "Systemd \<Rightarrow> host \<Rightarrow> trace \<Rightarrow> error option outcome \<times> trace" where
  "Restart_bare s H tr =
     (let finish = (\<lambda>name tr1.
            case receive H tr1 of
              (None, tr2) \<Rightarrow> (Blocked, tr2)
            | (Some v, tr2) \<Rightarrow>
                (Returned None,
                 if v = ''failed''
                 then logger ErrorLevel (''Restarted [ '' @ name @ '' ] '' @ v) [] tr2
                 else logger InfoLevel (''Restarted [ '' @ name @ '' ] '' @ v) [] tr2))
      in case job H RestartUnit (Name s @ ''.service'') tr of
           (None, tr1) \<Rightarrow> finish (Name s @ ''.service'') tr1
         | (Some _, tr1) \<Rightarrow>
             (case job H RestartUnit (Name s @ ''@default.service'') tr1 of
                (Some err, tr2) \<Rightarrow> (Returned (Some err), tr2)
              | (None, tr2) \<Rightarrow> finish (Name s @ ''@default.service'') tr2))"

definition Restart :: "Systemd \<Rightarrow> host \<Rightarrow> bool \<Rightarrow> string list \<Rightarrow> trace \<Rightarrow> error option outcome \<times> trace" where
  "Restart s H all tags tr =
     (case connect H tr of
        (Some err, tr0) \<Rightarrow> (Returned (Some err), tr0)
      | (None, tr0) \<Rightarrow>
          if all then
            (case Status s H False tr0 of
               (Inl err, tr1) \<Rightarrow> (Returned (Some err), tr1)
             | (Inr items, tr1) \<Rightarrow> lift_loop (Restart_all_loop H items tr1))
          else if length tags > 0 then lift_loop (Restart_tags_loop s H tags tr0)
          else Restart_bare s H tr0)"

section \<open>Reload\<close>

text \<open>
  The loop of the \<^verbatim>\<open>all\<close> branch returns the error of a rejected call. The loop of the
  tags branch logs it and has no \<^verbatim>\<open>continue\<close>: it goes on to the receive.
\<close>

fun Reload_all_loop :: "host \<Rightarrow> UnitStatus list \<Rightarrow> trace \<Rightarrow> error option outcome \<times> trace" where
  "Reload_all_loop H [] tr = (Returned None, tr)"
| "Reload_all_loop H (item # items) tr =
     (case job H ReloadOrRestartUnit (UnitName item) tr of
        (Some err, tr1) \<Rightarrow> (Returned (Some err), tr1)
      | (None, tr1) \<Rightarrow>
          (case receive H tr1 of
             (None, tr2) \<Rightarrow> (Blocked, tr2)
           | (Some v, tr2) \<Rightarrow>
               Reload_all_loop H items
                 (if v = ''failed''
                  then logger ErrorLevel (''Reloaded [ '' @ UnitName item @ ''] '' @ v) [] tr2
                  else logger InfoLevel (''Reloaded [ '' @ UnitName item @ '' ] '' @ v) [] tr2)))"

fun Reload_tags_loop :: "Systemd \<Rightarrow> host \<Rightarrow> string list \<Rightarrow> trace \<Rightarrow> unit outcome \<times> trace" where
  "Reload_tags_loop s H [] tr = (Returned (), tr)"
| "Reload_tags_loop s H (tag # tags) tr =
     (let name = Name s @ ''@'' @ tag @ ''.service'' in
      case job H ReloadOrRestartUnit name tr of (r, tr0) \<Rightarrow>
        (let tr1 = (case r of Some err \<Rightarrow> logger WarnLevel err [] tr0 | None \<Rightarrow> tr0) in
         case receive H tr1 of
           (None, tr2) \<Rightarrow> (Blocked, tr2)
         | (Some v, tr2) \<Rightarrow>
             Reload_tags_loop s H tags
               (if v = ''failed''
                then logger ErrorLevel (''Reloaded [ '' @ name @ '' ] '' @ v) [] tr2
                else logger InfoLevel (''Reloaded [ '' @ name @ '' ] '' @ v) [] tr2)))"

definition Reload_bare :: "Systemd \<Rightarrow> host \<Rightarrow> trace \<Rightarrow> error option outcome \<times> trace" where
  "Reload_bare s H tr =
     (let finish = (\<lambda>name tr1.
            case receive H tr1 of
              (None, tr2) \<Rightarrow> (Blocked, tr2)
            | (Some v, tr2) \<Rightarrow>
                (Returned None,
                 if v = ''failed''
                 then logger ErrorLevel (''Reloaded [ '' @ name @ '' ] '' @ v) [] tr2
                 else logger InfoLevel (''Reloaded [ '' @ name @ '' ] '' @ v) [] tr2))
      in case job H ReloadOrRestartUnit (Name s @ ''.service'') tr of
           (None, tr1) \<Rightarrow> finish (Name s @ ''.service'') tr1
         | (Some _, tr1) \<Rightarrow>
             (case job H ReloadOrRestartUnit (Name s @ ''@default.service'') tr1 of
                (Some err, tr2) \<Rightarrow> (Returned (Some err), tr2)
              | (None, tr2) \<Rightarrow> finish (Name s @ ''@default.service'') tr2))"

definition Reload :: "Systemd \<Rightarrow> host \<Rightarrow> bool \<Rightarrow> string list \<Rightarrow> trace \<Rightarrow> error option outcome \<times> trace" where
  "Reload s H all tags tr =
     (case connect H (logger InfoLevel (''Reloading... '' @ Name s) [] tr) of
        (Some err, tr0) \<Rightarrow> (Returned (Some err), tr0)
      | (None, tr0) \<Rightarrow>
          if all then
            (case Status s H False tr0 of
               (Inl err, tr1) \<Rightarrow> (Returned (Some err), tr1)
             | (Inr items, tr1) \<Rightarrow> Reload_all_loop H items tr1)
          else if length tags > 0 then lift_loop (Reload_tags_loop s H tags tr0)
          else Reload_bare s H tr0)"

section \<open>Install and Remove\<close>

definition Install :: "Systemd \<Rightarrow> host \<Rightarrow> bool \<Rightarrow> string list \<Rightarrow> trace \<Rightarrow> error option \<times> trace" where
  "Install s H multi args tr =
     (case os_executable H (logger InfoLevel (''Install... '' @ Name s) [] tr) of
        (Inl err, tr1) \<Rightarrow> (Some err, tr1)
      | (Inr execPath, tr1) \<Rightarrow>
          (case CreateUnit H multi (Name s) (Description s) execPath args of
             Inl err \<Rightarrow> (Some err, tr1)
           | Inr buf \<Rightarrow>
               (let name = UnitFile s multi in
                case os_write_file H name buf tr1 of
                  (Some err, tr2) \<Rightarrow>
                    (Some err, logger ErrorLevel ''Failed to write unit file''
                                 [(''name'', name), (''error'', err)] tr2)
                | (None, tr2) \<Rightarrow>
                    (case connect H tr2 of
                       (Some err, tr3) \<Rightarrow> (Some err, tr3)
                     | (None, tr3) \<Rightarrow>
                         daemon_reload H (logger InfoLevel (''Installed '' @ Name s) [] tr3)))))"

text \<open>
  \<^verbatim>\<open>slices.Contains(errs, nil)\<close> over the two results of \<^verbatim>\<open>os.Remove\<close>, in the order
  of the slice literal.
\<close>

definition Remove :: "Systemd \<Rightarrow> host \<Rightarrow> trace \<Rightarrow> error option outcome \<times> trace" where
  "Remove s H tr =
     (case Stop s H True [] (logger InfoLevel (''Removing... '' @ Name s) [] tr) of
        (Blocked, tr1) \<Rightarrow> (Blocked, tr1)
      | (Returned err, tr1) \<Rightarrow>
          (let tr2 = (case err of Some e \<Rightarrow> logger WarnLevel e [] tr1 | None \<Rightarrow> tr1) in
           case os_remove H (''/etc/systemd/system/'' @ Name s @ ''.service'') tr2 of (e1, tr3) \<Rightarrow>
           case os_remove H (''/etc/systemd/system/'' @ Name s @ ''@.service'') tr3 of (e2, tr4) \<Rightarrow>
             if \<not> (None \<in> set [e1, e2]) then (Returned (Some ''remove failed''), tr4)
             else (Returned None, logger InfoLevel (''Removed '' @ Name s) [] tr4)))"

section \<open>The command line\<close>

text \<open>
  \<^verbatim>\<open>Command\<close> registers eleven cobra commands. A command of cobra has a hook
  \<^verbatim>\<open>PersistentPreRunE\<close> and a body \<^verbatim>\<open>RunE\<close>; cobra runs the hook of the command first and
  runs the body only when the hook returned \<^verbatim>\<open>nil\<close>. The flags are read with their
  errors dropped, so a command sees their values only.
\<close>

datatype command =
    installCmd | removeCmd | startCmd | stopCmd | enableCmd | disableCmd
  | restartCmd | killCmd | reloadCmd | statusCmd | unitCmd

record flags =
  flag_multi :: bool
  flag_num :: int
  flag_all :: bool
  flag_template :: bool

definition persistentPreRunE :: "host \<Rightarrow> trace \<Rightarrow> error option \<times> trace" where
  "persistentPreRunE H tr =
     (case user_current H tr of
        (Inl err, tr1) \<Rightarrow> (Some err, tr1)
      | (Inr u, tr1) \<Rightarrow>
          if Gid u = ''0'' \<or> Uid u = ''0'' then (None, tr1)
          else (Some ''root privileges required'', tr1))"

definition returned :: "error option \<times> trace \<Rightarrow> error option outcome \<times> trace" where
  "returned r = (case r of (err, tr) \<Rightarrow> (Returned err, tr))"

definition unit_RunE :: "Systemd \<Rightarrow> host \<Rightarrow> flags \<Rightarrow> string list \<Rightarrow> trace \<Rightarrow> error option \<times> trace" where
  "unit_RunE s H fl args tr =
     (if flag_template fl then
        (case os_executable H tr of
           (Inl err, tr1) \<Rightarrow> (Some err, tr1)
         | (Inr execPath, tr1) \<Rightarrow>
             (case CreateUnit H (flag_multi fl) (Name s) (Description s) execPath args of
                Inl err \<Rightarrow> (Some err, tr1)
              | Inr buf \<Rightarrow> (None, println buf tr1)))
      else
        (let fn = UnitFile s (flag_multi fl) in
         case os_read_file H fn (logger InfoLevel (''filepath = '' @ fn) [] tr) of
           (Inl err, tr1) \<Rightarrow> (Some err, tr1)
         | (Inr buf, tr1) \<Rightarrow> (None, println buf tr1)))"

fun RunE :: "command \<Rightarrow> Systemd \<Rightarrow> host \<Rightarrow> flags \<Rightarrow> string list \<Rightarrow> trace \<Rightarrow> error option outcome \<times> trace" where
  "RunE installCmd s H fl args tr = returned (Install s H (flag_multi fl) args tr)"
| "RunE removeCmd s H fl args tr = Remove s H tr"
| "RunE startCmd s H fl args tr = Start s H (flag_num fl) args tr"
| "RunE stopCmd s H fl args tr = Stop s H (flag_all fl) args tr"
| "RunE enableCmd s H fl args tr = returned (Enable s H args tr)"
| "RunE disableCmd s H fl args tr = returned (Disable s H args tr)"
| "RunE restartCmd s H fl args tr = Restart s H (flag_all fl) args tr"
| "RunE killCmd s H fl args tr = returned (Kill s H (flag_all fl) args tr)"
| "RunE reloadCmd s H fl args tr = Reload s H (flag_all fl) args tr"
| "RunE statusCmd s H fl args tr =
     (case Status s H True tr of (Inl err, tr1) \<Rightarrow> (Returned (Some err), tr1)
                               | (Inr items, tr1) \<Rightarrow> (Returned None, tr1))"
| "RunE unitCmd s H fl args tr = returned (unit_RunE s H fl args tr)"

text \<open>The hook each command literal sets; \<open>None\<close> would be a command without one.\<close>

fun PersistentPreRunE :: "command \<Rightarrow> (host \<Rightarrow> trace \<Rightarrow> error option \<times> trace) option" where
  "PersistentPreRunE installCmd = Some persistentPreRunE"
| "PersistentPreRunE removeCmd = Some persistentPreRunE"
| "PersistentPreRunE startCmd = Some persistentPreRunE"
| "PersistentPreRunE stopCmd = Some persistentPreRunE"
| "PersistentPreRunE enableCmd = Some persistentPreRunE"
| "PersistentPreRunE disableCmd = Some persistentPreRunE"
| "PersistentPreRunE restartCmd = Some persistentPreRunE"
| "PersistentPreRunE killCmd = Some persistentPreRunE"
| "PersistentPreRunE reloadCmd = Some persistentPreRunE"
| "PersistentPreRunE statusCmd = Some persistentPreRunE"
| "PersistentPreRunE unitCmd = Some persistentPreRunE"

definition execute :: "command \<Rightarrow> Systemd \<Rightarrow> host \<Rightarrow> flags \<Rightarrow> string list \<Rightarrow> trace \<Rightarrow> error option outcome \<times> trace" where
  "execute c s H fl args tr =
     (case PersistentPreRunE c of
        None \<Rightarrow> RunE c s H fl args tr
      | Some hook \<Rightarrow>
          (case hook H tr of
             (Some err, tr1) \<Rightarrow> (Returned (Some err), tr1)
           | (None, tr1) \<Rightarrow> RunE c s H fl args tr1))"

section \<open>Reading a trace\<close>

text \<open>
  The job calls, the attempted removals, the attempted symlinks and the log lines of a
  trace, each in the order of the trace.
\<close>

fun jobs :: "trace \<Rightarrow> (job_method \<times> string) list" where
  "jobs [] = []"
| "jobs (Job m name r # tr) = (m, name) # jobs tr"
| "jobs (ev # tr) = jobs tr"

fun removals :: "trace \<Rightarrow> (string \<times> error option) list" where
  "removals [] = []"
| "removals (OsRemove p r # tr) = (p, r) # removals tr"
| "removals (ev # tr) = removals tr"

fun symlinks :: "trace \<Rightarrow> (string \<times> string) list" where
  "symlinks [] = []"
| "symlinks (OsSymlink origin target r # tr) = (origin, target) # symlinks tr"
| "symlinks (ev # tr) = symlinks tr"

fun logs :: "trace \<Rightarrow> (level \<times> string \<times> (string \<times> string) list) list" where
  "logs [] = []"
| "logs (Log lvl msg kvs # tr) = (lvl, msg, kvs) # logs tr"
| "logs (ev # tr) = logs tr"


text \<open>
  \<open>followed_by trig ok tr\<close>: every event of \<open>tr\<close> that \<open>trig\<close> selects has a successor
  in \<open>tr\<close>, and \<open>ok\<close> accepts that successor for it.
\<close>

fun followed_by :: "(event \<Rightarrow> bool) \<Rightarrow> (event \<Rightarrow> event \<Rightarrow> bool) \<Rightarrow> trace \<Rightarrow> bool" where
  "followed_by trig ok [] = True"
| "followed_by trig ok [ev] = (\<not> trig ev)"
| "followed_by trig ok (ev # nxt # tr) =
     ((if trig ev then ok ev nxt else True) \<and> followed_by trig ok (nxt # tr))"


text \<open>
  A completion result that arrived on the channel, and the log line that reports it.
\<close>

fun is_completion :: "event \<Rightarrow> bool" where
  "is_completion (Recv (Some v)) = True"
| "is_completion ev = False"

fun completion_log :: "event \<Rightarrow> event \<Rightarrow> bool" where
  "completion_log (Recv (Some v)) (Log lvl msg kvs) =
     (lvl = (if v = ''failed'' then ErrorLevel else InfoLevel))"
| "completion_log ev nxt = False"


text \<open>A job call that the manager rejected, and the warning that reports it.\<close>

fun is_rejection :: "event \<Rightarrow> bool" where
  "is_rejection (Job m name (Some err)) = True"
| "is_rejection ev = False"

fun rejection_warning :: "event \<Rightarrow> event \<Rightarrow> bool" where
  "rejection_warning (Job m name (Some err)) (Log lvl msg kvs) = (lvl = WarnLevel \<and> msg = err)"
| "rejection_warning ev nxt = False"


text \<open>An attempted symlink, and the log line that reports its result.\<close>

fun is_symlink :: "event \<Rightarrow> bool" where
  "is_symlink (OsSymlink origin target r) = True"
| "is_symlink ev = False"

fun symlink_log :: "event \<Rightarrow> event \<Rightarrow> bool" where
  "symlink_log (OsSymlink origin target (Some err)) (Log lvl msg kvs) =
     (lvl = ErrorLevel \<and> msg = ''Failed to create symlink''
      \<and> kvs = [(''origin'', origin), (''target'', target), (''error'', err)])"
| "symlink_log (OsSymlink origin target None) (Log lvl msg kvs) =
     (lvl = InfoLevel \<and> msg = ''Created symlink''
      \<and> kvs = [(''target'', target), (''origin'', origin)])"
| "symlink_log ev nxt = False"


text \<open>A removal that failed, and the log line of a given severity that reports it.\<close>

fun is_failed_removal :: "event \<Rightarrow> bool" where
  "is_failed_removal (OsRemove p (Some err)) = True"
| "is_failed_removal ev = False"

fun removal_log :: "level \<Rightarrow> event \<Rightarrow> event \<Rightarrow> bool" where
  "removal_log expected (OsRemove p (Some err)) (Log lvl msg kvs) =
     (lvl = expected \<and> msg = ''Failed to remove symlink'' \<and> (''error'', err) \<in> set kvs)"
| "removal_log expected ev nxt = False"


section \<open>Example hosts\<close>

text \<open>
  A host on which everything succeeds: the bus is reachable, every job is accepted and
  completes with \<^verbatim>\<open>done\<close>, two instances are loaded, the files exist and the user is
  root. The channel delivers a result only right after an accepted job.
\<close>

definition calm :: host where
  "calm =
     \<lparr>NewSystemConnectionContext = (\<lambda>tr. None),
      job_call = (\<lambda>tr m name. None),
      chan_recv = (\<lambda>tr. case rev tr of Job m name None # past \<Rightarrow> Some ''done'' | _ \<Rightarrow> None),
      ListUnitsByPatternsContext = (\<lambda>tr pat.
         Inr [\<lparr>UnitName = ''app@1.service'', ActiveState = ''active'', SubState = ''running''\<rparr>,
              \<lparr>UnitName = ''app@2.service'', ActiveState = ''failed'', SubState = ''failed''\<rparr>]),
      ReloadContext = (\<lambda>tr. None),
      os_Remove = (\<lambda>tr p. None),
      os_Symlink = (\<lambda>tr origin target. None),
      os_Stat = (\<lambda>tr p. Inr False),
      os_Executable = (\<lambda>tr. Inr ''/usr/local/bin/app''),
      os_WriteFile = (\<lambda>tr p buf. None),
      os_ReadFile = (\<lambda>tr p. Inr ''[Unit]''),
      user_Current = (\<lambda>tr. Inr \<lparr>Uid = ''0'', Gid = ''0''\<rparr>),
      CreateUnit = (\<lambda>multi name desc execPath args. Inr ''[Unit]'')\<rparr>"

definition app :: Systemd where
  "app = New ''app'' ''An application'' ''1.0.0'' ''io.example.app''"


text \<open>
  Variations of it: jobs that complete with \<^verbatim>\<open>failed\<close>; a manager that rejects every job
  call; an unreachable bus; a host without the templated unit file; a read-only file
  system; a host without enable symlinks; a host with the single-instance unit file only;
  a host without unit files; a user outside group 0; a user in group 0 who is not root;
  a host on which the lookup of the current user fails.
\<close>

definition failing_jobs :: host where
  "failing_jobs = calm\<lparr>chan_recv :=
     (\<lambda>tr. case rev tr of Job m name None # past \<Rightarrow> Some ''failed'' | _ \<Rightarrow> None)\<rparr>"

definition refusing :: host where
  "refusing = calm\<lparr>job_call := (\<lambda>tr m name. Some ''Unit not found.'')\<rparr>"

definition offline :: host where
  "offline = calm\<lparr>NewSystemConnectionContext := (\<lambda>tr. Some ''dial unix /run/dbus/system_bus_socket: connect: connection refused'')\<rparr>"

definition half_installed :: host where
  "half_installed = calm\<lparr>os_Remove := (\<lambda>tr p.
     if p = ''/etc/systemd/system/app@.service''
     then Some ''remove /etc/systemd/system/app@.service: no such file or directory''
     else None)\<rparr>"

definition read_only :: host where
  "read_only = calm\<lparr>os_Symlink := (\<lambda>tr origin target.
     Some (''symlink '' @ origin @ '' '' @ target @ '': read-only file system''))\<rparr>"

definition not_enabled :: host where
  "not_enabled = calm\<lparr>os_Remove := (\<lambda>tr p. Some (''remove '' @ p @ '': no such file or directory''))\<rparr>"

definition single_installed :: host where
  "single_installed = calm\<lparr>os_Stat := (\<lambda>tr p.
     if p = ''/etc/systemd/system/app.service'' then Inr False
     else Inl (''stat '' @ p @ '': no such file or directory''))\<rparr>"

definition not_installed :: host where
  "not_installed = calm\<lparr>os_Stat := (\<lambda>tr p. Inl (''stat '' @ p @ '': no such file or directory''))\<rparr>"

definition guest :: host where
  "guest = calm\<lparr>user_Current := (\<lambda>tr. Inr \<lparr>Uid = ''1000'', Gid = ''1000''\<rparr>)\<rparr>"

definition staff :: host where
  "staff = calm\<lparr>user_Current := (\<lambda>tr. Inr \<lparr>Uid = ''1000'', Gid = ''0''\<rparr>)\<rparr>"

definition nobody :: host where
  "nobody = calm\<lparr>user_Current := (\<lambda>tr. Inl ''user: unknown userid 1000'')\<rparr>"

definition no_flags :: flags where
  "no_flags = \<lparr>flag_multi = False, flag_num = 0, flag_all = False, flag_template = False\<rparr>"


section \<open>Properties\<close>

declare Start_num_loop.simps [simp del]
declare utoa.simps [simp del]

lemmas calls =
  connect_def job_def receive_def kill_unit_def list_units_def daemon_reload_def logger_def
  os_remove_def os_symlink_def os_stat_def os_executable_def os_write_file_def
  os_read_file_def println_def user_current_def Let_def

lemma jobs_append: "jobs (xs @ ys) = jobs xs @ jobs ys"
  by (induction xs rule: jobs.induct) simp_all

lemma removals_append: "removals (xs @ ys) = removals xs @ removals ys"
  by (induction xs rule: removals.induct) simp_all

lemma symlinks_append: "symlinks (xs @ ys) = symlinks xs @ symlinks ys"
  by (induction xs rule: symlinks.induct) simp_all

lemma logs_append: "logs (xs @ ys) = logs xs @ logs ys"
  by (induction xs rule: logs.induct) simp_all

lemma followed_by_skip:
  "\<not> trig ev \<Longrightarrow> followed_by trig ok (ev # tr) = followed_by trig ok tr"
  by (cases tr) simp_all

lemma lift_loop_cases:
  "lift_loop r = (out, tr') \<Longrightarrow> snd r = tr' \<and> (\<forall>e. out \<noteq> Returned (Some e))"
  by (auto simp: lift_loop_def split: prod.splits outcome.splits)

lemma lift_loop_snd: "snd (lift_loop r) = snd r"
  by (auto simp: lift_loop_def split: prod.splits outcome.splits)


subsection \<open>Start with a count\<close>

lemma Start_num_loop_jobs:
  "Start_num_loop s H num i tr = (Returned (), tr') \<Longrightarrow>
   jobs tr' = jobs tr @ map (\<lambda>i. (StartUnit, Name s @ ''@'' @ Itoa i @ ''.service'')) [i..num]"
proof (induction "nat (num + 1 - i)" arbitrary: i tr)
  case 0
  then show ?case
    by (subst (asm) Start_num_loop.simps) simp
next
  case (Suc n)
  then have le: "i \<le> num" and n: "n = nat (num + 1 - (i + 1))" by simp_all
  from Suc.prems le show ?case
    by (subst (asm) Start_num_loop.simps, subst upto.simps)
       (auto simp: Let_def job_def receive_def logger_def jobs_append
             split: if_splits option.splits dest!: Suc.hyps(1)[OF n])
qed


lemma Start_num_loop_returns:
  assumes "\<forall>h m name. chan_recv H (h @ [Job m name None]) \<noteq> None"
  shows "\<exists>tr'. Start_num_loop s H num i tr = (Returned (), tr')"
proof (induction "nat (num + 1 - i)" arbitrary: i tr)
  case 0
  then show ?case
    by (subst Start_num_loop.simps) simp
next
  case (Suc n)
  then have le: "i \<le> num" and n: "n = nat (num + 1 - (i + 1))" by simp_all
  note IH = Suc.hyps(1)[OF n]
  let ?name = "Name s @ ''@'' @ Itoa i @ ''.service''"
  show ?case
  proof (cases "job_call H tr StartUnit ?name")
    case (Some err)
    with le show ?thesis
      by (subst Start_num_loop.simps) (simp add: calls IH)
  next
    case None
    from assms obtain v where "chan_recv H (tr @ [Job StartUnit ?name None]) = Some v"
      by fastforce
    with None le show ?thesis
      by (subst Start_num_loop.simps) (simp add: calls IH)
  qed
qed

text \<open>
  C5. Let the bus be reachable and \<^verbatim>\<open>Start\<close> be called with a count \<open>num > 0\<close> (below the
  largest \<^verbatim>\<open>int\<close>, where the loop counter cannot wrap). On a host whose channel delivers
  a result after every accepted job, \<^verbatim>\<open>Start\<close> returns \<^verbatim>\<open>nil\<close> and the start calls it has
  issued are exactly those for \<open><name>@1.service\<close>, ..., \<open><name>@<num>.service\<close>, in this
  order, whatever the manager answered to each; they are \<open>num\<close> calls. On any host, the
  same holds of the calls whenever \<^verbatim>\<open>Start\<close> returns. The tags are not looked at.
\<close>

theorem Start_num_attempts:
  assumes "0 < num" and "num < 2 ^ 63 - 1"
    and "NewSystemConnectionContext H tr = None"
  shows "((\<forall>h m name. chan_recv H (h @ [Job m name None]) \<noteq> None) \<longrightarrow>
            fst (Start s H num tags tr) = Returned None
          \<and> jobs (snd (Start s H num tags tr)) =
              jobs tr @ map (\<lambda>i. (StartUnit, Name s @ ''@'' @ Itoa i @ ''.service'')) [1..num]
          \<and> length (jobs (snd (Start s H num tags tr))) = length (jobs tr) + nat num)
       \<and> (\<forall>r tr'. Start s H num tags tr = (Returned r, tr') \<longrightarrow>
            jobs tr' =
              jobs tr @ map (\<lambda>i. (StartUnit, Name s @ ''@'' @ Itoa i @ ''.service'')) [1..num]
          \<and> length (jobs tr') = length (jobs tr) + nat num)"
proof -
  have calls_made:
    "jobs tr' = jobs tr @ map (\<lambda>i. (StartUnit, Name s @ ''@'' @ Itoa i @ ''.service'')) [1..num]
     \<and> length (jobs tr') = length (jobs tr) + nat num"
    if ret: "Start s H num tags tr = (Returned r, tr')" for r tr'
  proof -
    from assms(1,3) ret have
      "Start_num_loop s H num 1 (tr @ [Connect None]) = (Returned (), tr')"
      by (auto simp: Start_def connect_def lift_loop_def split: prod.splits outcome.splits)
    from Start_num_loop_jobs[OF this]
    have "jobs tr' = jobs tr @ map (\<lambda>i. (StartUnit, Name s @ ''@'' @ Itoa i @ ''.service'')) [1..num]"
      by (simp add: jobs_append)
    then show ?thesis using assms(1) by simp
  qed
  have returns: "\<exists>tr'. Start s H num tags tr = (Returned None, tr')"
    if resp: "\<forall>h m name. chan_recv H (h @ [Job m name None]) \<noteq> None"
  proof -
    obtain tr' where "Start_num_loop s H num 1 (tr @ [Connect None]) = (Returned (), tr')"
      using Start_num_loop_returns[OF resp] by blast
    with assms(1,3) have "Start s H num tags tr = (Returned None, tr')"
      by (simp add: Start_def calls lift_loop_def)
    then show ?thesis by blast
  qed
  show ?thesis
  proof (intro conjI impI allI)
    assume resp: "\<forall>h m name. chan_recv H (h @ [Job m name None]) \<noteq> None"
    from returns[OF resp] obtain tr' where st: "Start s H num tags tr = (Returned None, tr')"
      by blast
    from st show "fst (Start s H num tags tr) = Returned None" by simp
    from calls_made[OF st] st
    show "jobs (snd (Start s H num tags tr)) =
        jobs tr @ map (\<lambda>i. (StartUnit, Name s @ ''@'' @ Itoa i @ ''.service'')) [1..num]"
      and "length (jobs (snd (Start s H num tags tr))) = length (jobs tr) + nat num"
      by simp_all
  next
    fix r tr' assume "Start s H num tags tr = (Returned r, tr')"
    from calls_made[OF this]
    show "jobs tr' =
        jobs tr @ map (\<lambda>i. (StartUnit, Name s @ ''@'' @ Itoa i @ ''.service'')) [1..num]"
      and "length (jobs tr') = length (jobs tr) + nat num"
      by simp_all
  qed
qed

theorem Start_num_attempts_witness:
  "(0::int) < 3 \<and> (3::int) < 2 ^ 63 - 1 \<and> NewSystemConnectionContext calm [] = None
   \<and> (\<forall>h m name. chan_recv calm (h @ [Job m name None]) \<noteq> None)
   \<and> fst (Start app calm 3 [] []) = Returned None
   \<and> jobs (snd (Start app calm 3 [] [])) =
       [(StartUnit, ''app@1.service''), (StartUnit, ''app@2.service''), (StartUnit, ''app@3.service'')]
   \<and> length (jobs (snd (Start app calm 3 [] []))) = 3"
proof -
  have c: "NewSystemConnectionContext calm [] = None" by (simp add: calm_def)
  have r: "\<forall>h m name. chan_recv calm (h @ [Job m name None]) \<noteq> None" by (simp add: calm_def)
  have n: "map (\<lambda>i. (StartUnit, Name app @ ''@'' @ Itoa i @ ''.service'')) [1..3] =
    [(StartUnit, ''app@1.service''), (StartUnit, ''app@2.service''), (StartUnit, ''app@3.service'')]"
    by code_simp
  have "fst (Start app calm 3 [] []) = Returned None
     \<and> jobs (snd (Start app calm 3 [] [])) =
       [(StartUnit, ''app@1.service''), (StartUnit, ''app@2.service''), (StartUnit, ''app@3.service'')]"
    using Start_num_attempts[of 3 calm "[]" app "[]", OF _ _ c] r
    by (simp only: n jobs.simps append_Nil) simp
  then show ?thesis using c r by simp
qed


subsection \<open>Completion results in Start\<close>

lemma Start_num_loop_completions:
  "Start_num_loop s H num i tr = (out, tr') \<Longrightarrow>
   \<exists>evs. tr' = tr @ evs \<and> followed_by is_completion completion_log evs"
proof (induction "nat (num + 1 - i)" arbitrary: i tr)
  case 0
  then show ?case
    by (subst (asm) Start_num_loop.simps) simp
next
  case (Suc n)
  then have le: "i \<le> num" and n: "n = nat (num + 1 - (i + 1))" by simp_all
  from Suc.prems le show ?case
    by (subst (asm) Start_num_loop.simps)
       (auto simp: calls followed_by_skip
             split: if_splits option.splits dest!: Suc.hyps(1)[OF n])
qed

lemma Start_tags_loop_completions:
  "Start_tags_loop s H tags tr = (out, tr') \<Longrightarrow>
   \<exists>evs. tr' = tr @ evs \<and> followed_by is_completion completion_log evs"
proof (induction tags arbitrary: tr)
  case Nil
  then show ?case by simp
next
  case (Cons tag tags)
  from Cons.prems show ?case
    by (auto simp: calls followed_by_skip
             split: if_splits option.splits dest!: Cons.IH)
qed

lemma Start_bare_cases:
  "Start_bare s H tr = (out, tr') \<Longrightarrow>
   \<exists>evs. tr' = tr @ evs \<and> followed_by is_completion completion_log evs \<and>
     (\<forall>e. out = Returned (Some e) \<longrightarrow>
        (\<exists>e1. evs = [Job StartUnit (Name s @ ''.service'') (Some e1),
                     Job StartUnit (Name s @ ''@default.service'') (Some e)]))"
  by (auto simp: Start_bare_def calls followed_by_skip
           split: if_splits option.splits)


text \<open>
  C6. In every branch of \<^verbatim>\<open>Start\<close>, a completion result received on the channel is
  followed at once by a log line, at error severity when the result is \<^verbatim>\<open>failed\<close> and
  at informational severity otherwise. When \<^verbatim>\<open>Start\<close> returns an error, no result was
  received at all, and either the connection failed with that error, or no count and no
  tags were given and the manager rejected the bare name and then \<^verbatim>\<open>@default\<close>, the
  error being the one of the second call.
\<close>

theorem Start_completion_results:
  assumes "Start s H num tags tr = (out, tr')"
  shows "\<exists>evs. tr' = tr @ evs
     \<and> followed_by is_completion completion_log evs
     \<and> (\<forall>e. out = Returned (Some e) \<longrightarrow>
          (\<forall>v. Recv v \<notin> set evs) \<and>
          (evs = [Connect (Some e)]
           \<or> (\<not> 0 < num \<and> tags = [] \<and>
               (\<exists>e1. evs = [Connect None,
                            Job StartUnit (Name s @ ''.service'') (Some e1),
                            Job StartUnit (Name s @ ''@default.service'') (Some e)]))))"
proof (cases "NewSystemConnectionContext H tr")
  case (Some err)
  with assms show ?thesis
    by (auto simp: Start_def calls)
next
  case None
  let ?tr0 = "tr @ [Connect None]"
  consider (count) "0 < num" | (tagged) "\<not> 0 < num" "tags \<noteq> []" | (bare) "\<not> 0 < num" "tags = []"
    by blast
  then show ?thesis
  proof cases
    case count
    with assms None have l: "lift_loop (Start_num_loop s H num 1 ?tr0) = (out, tr')"
      by (simp add: Start_def calls)
    obtain o1 where "Start_num_loop s H num 1 ?tr0 = (o1, tr')"
      using lift_loop_cases[OF l] by (cases "Start_num_loop s H num 1 ?tr0") auto
    from Start_num_loop_completions[OF this] lift_loop_cases[OF l]
    show ?thesis by (auto simp: followed_by_skip)
  next
    case tagged
    with assms None have l: "lift_loop (Start_tags_loop s H tags ?tr0) = (out, tr')"
      by (simp add: Start_def calls)
    obtain o1 where "Start_tags_loop s H tags ?tr0 = (o1, tr')"
      using lift_loop_cases[OF l] by (cases "Start_tags_loop s H tags ?tr0") auto
    from Start_tags_loop_completions[OF this] lift_loop_cases[OF l]
    show ?thesis by (auto simp: followed_by_skip)
  next
    case bare
    with assms None have "Start_bare s H ?tr0 = (out, tr')"
      by (simp add: Start_def calls)
    from Start_bare_cases[OF this] bare
    show ?thesis by (auto simp: followed_by_skip)
  qed
qed


lemma Start_failing_jobs:
  "Start app failing_jobs 0 [''blue''] [] =
     (Returned None,
      [Connect None, Job StartUnit ''app@blue.service'' None, Recv (Some ''failed''),
       Log ErrorLevel ''Started [ app@blue.service ] failed'' []])"
  by code_simp

lemma Start_refusing:
  "Start app refusing 0 [] [] =
     (Returned (Some ''Unit not found.''),
      [Connect None, Job StartUnit ''app.service'' (Some ''Unit not found.''),
       Job StartUnit ''app@default.service'' (Some ''Unit not found.'')])"
  by code_simp

theorem Start_completion_results_witness:
  "fst (Start app failing_jobs 0 [''blue''] []) = Returned None
   \<and> followed_by is_completion completion_log (snd (Start app failing_jobs 0 [''blue''] []))
   \<and> logs (snd (Start app failing_jobs 0 [''blue''] [])) =
       [(ErrorLevel, ''Started [ app@blue.service ] failed'', [])]
   \<and> fst (Start app refusing 0 [] []) = Returned (Some ''Unit not found.'')
   \<and> jobs (snd (Start app refusing 0 [] [])) =
       [(StartUnit, ''app.service''), (StartUnit, ''app@default.service'')]"
  using Start_completion_results[OF Start_failing_jobs] Start_completion_results[OF Start_refusing]
  by (simp add: Start_failing_jobs Start_refusing)

subsection \<open>Call errors in Reload\<close>

lemma Reload_tags_loop_rejections:
  "Reload_tags_loop s H tags tr = (out, tr') \<Longrightarrow>
   \<exists>evs. tr' = tr @ evs \<and> followed_by is_rejection rejection_warning evs"
proof (induction tags arbitrary: tr)
  case Nil
  then show ?case by simp
next
  case (Cons tag tags)
  from Cons.prems show ?case
    by (auto simp: calls followed_by_skip split: if_splits option.splits dest!: Cons.IH)
qed

lemma Reload_all_loop_abort:
  "Reload_all_loop H items tr = (out, tr') \<Longrightarrow>
   \<exists>evs. tr' = tr @ evs \<and>
     (\<forall>name e. Job ReloadOrRestartUnit name (Some e) \<in> set evs \<longrightarrow>
        out = Returned (Some e) \<and> last evs = Job ReloadOrRestartUnit name (Some e))"
proof (induction items arbitrary: tr)
  case Nil
  then show ?case by simp
next
  case (Cons item items)
  from Cons.prems show ?case
    by (auto simp: calls split: if_splits option.splits dest!: Cons.IH)
qed

lemma Reload_bare_cases:
  "Reload_bare s H tr = (out, tr') \<Longrightarrow>
   \<exists>evs. tr' = tr @ evs \<and>
     (\<forall>msg kvs. Log WarnLevel msg kvs \<notin> set evs) \<and>
     (\<forall>c. Connect c \<notin> set evs) \<and>
     (\<forall>e1. Job ReloadOrRestartUnit (Name s @ ''.service'') (Some e1) \<in> set evs \<longrightarrow>
        (\<exists>r. Job ReloadOrRestartUnit (Name s @ ''@default.service'') r \<in> set evs)) \<and>
     (\<forall>e. out = Returned (Some e) \<longleftrightarrow>
        (\<exists>e1. evs = [Job ReloadOrRestartUnit (Name s @ ''.service'') (Some e1),
                     Job ReloadOrRestartUnit (Name s @ ''@default.service'') (Some e)]))"
  by (auto simp: Reload_bare_def calls split: if_splits option.splits)

lemma Status_quiet:
  "Status s H False tr = (r, tr') \<Longrightarrow>
   \<exists>evs. tr' = tr @ evs \<and> (\<forall>ev \<in> set evs. (\<exists>c. ev = Connect c) \<or> (\<exists>p l. ev = ListUnits p l))"
  by (auto simp: Status_def calls split: option.splits sum.splits)


text \<open>
  C2, as amended. In the tags branch of \<^verbatim>\<open>Reload\<close> every rejected call is followed at
  once by a warning that carries its error, and \<^verbatim>\<open>Reload\<close> returns an error there only
  when the connection failed. In the branch without tags and without \<^verbatim>\<open>all\<close> nothing is
  logged as a warning: a rejection of the bare name is followed by the call for
  \<^verbatim>\<open>@default\<close>, and \<^verbatim>\<open>Reload\<close> returns an error exactly when the connection failed or
  both calls were rejected, the error then being the one of the second call. In the
  \<^verbatim>\<open>all\<close> branch a rejected call makes \<^verbatim>\<open>Reload\<close> return its error, and that call is the
  last thing \<^verbatim>\<open>Reload\<close> did.
\<close>

theorem Reload_call_errors:
  assumes "Reload s H all tags tr = (out, tr')"
  shows "\<exists>evs. tr' = tr @ evs
     \<and> (\<not> all \<and> tags \<noteq> [] \<longrightarrow>
          followed_by is_rejection rejection_warning evs
          \<and> (\<forall>e. out = Returned (Some e) \<longrightarrow>
                evs = [Log InfoLevel (''Reloading... '' @ Name s) [], Connect (Some e)]))
     \<and> (\<not> all \<and> tags = [] \<longrightarrow>
          (\<forall>msg kvs. Log WarnLevel msg kvs \<notin> set evs)
          \<and> (\<forall>e1. Job ReloadOrRestartUnit (Name s @ ''.service'') (Some e1) \<in> set evs \<longrightarrow>
                (\<exists>r. Job ReloadOrRestartUnit (Name s @ ''@default.service'') r \<in> set evs))
          \<and> (\<forall>e. out = Returned (Some e) \<longleftrightarrow>
                evs = [Log InfoLevel (''Reloading... '' @ Name s) [], Connect (Some e)]
                \<or> (\<exists>e1. evs = [Log InfoLevel (''Reloading... '' @ Name s) [], Connect None,
                                Job ReloadOrRestartUnit (Name s @ ''.service'') (Some e1),
                                Job ReloadOrRestartUnit (Name s @ ''@default.service'') (Some e)])))
     \<and> (all \<longrightarrow>
          (\<forall>name e. Job ReloadOrRestartUnit name (Some e) \<in> set evs \<longrightarrow>
             out = Returned (Some e) \<and> last evs = Job ReloadOrRestartUnit name (Some e)))"
proof -
  let ?tr0 = "tr @ [Log InfoLevel (''Reloading... '' @ Name s) []]"
  let ?tr1 = "?tr0 @ [Connect None]"
  show ?thesis
  proof (cases "NewSystemConnectionContext H ?tr0")
    case (Some err)
    with assms show ?thesis
      by (auto simp: Reload_def calls)
  next
    case None
    consider (every) "all" | (tagged) "\<not> all" "tags \<noteq> []" | (bare) "\<not> all" "tags = []"
      by blast
    then show ?thesis
    proof cases
      case every
      obtain r tr2 where st: "Status s H False ?tr1 = (r, tr2)"
        by (cases "Status s H False ?tr1")
      from Status_quiet[OF st] obtain evs1 where
        evs1: "tr2 = ?tr1 @ evs1"
          "\<forall>ev \<in> set evs1. (\<exists>c. ev = Connect c) \<or> (\<exists>p l. ev = ListUnits p l)"
        by blast
      show ?thesis
      proof (cases r)
        case (Inl err)
        with assms None every st evs1 show ?thesis
          by (auto simp: Reload_def calls)
      next
        case (Inr items)
        with assms None every st have "Reload_all_loop H items tr2 = (out, tr')"
          by (simp add: Reload_def calls)
        from Reload_all_loop_abort[OF this] obtain evs2 where
          evs2: "tr' = tr2 @ evs2"
            "\<forall>name e. Job ReloadOrRestartUnit name (Some e) \<in> set evs2 \<longrightarrow>
               out = Returned (Some e) \<and> last evs2 = Job ReloadOrRestartUnit name (Some e)"
          by blast
        have "tr' = tr @ (Log InfoLevel (''Reloading... '' @ Name s) [] # Connect None # evs1 @ evs2)"
          using evs1(1) evs2(1) by simp
        moreover have "\<forall>name e. Job ReloadOrRestartUnit name (Some e)
               \<in> set (Log InfoLevel (''Reloading... '' @ Name s) [] # Connect None # evs1 @ evs2) \<longrightarrow>
             out = Returned (Some e) \<and>
             last (Log InfoLevel (''Reloading... '' @ Name s) [] # Connect None # evs1 @ evs2)
               = Job ReloadOrRestartUnit name (Some e)"
          using evs1(2) evs2(2) by (auto simp: last_append)
        ultimately show ?thesis using every by blast
      qed
    next
      case tagged
      with assms None have l: "lift_loop (Reload_tags_loop s H tags ?tr1) = (out, tr')"
        by (simp add: Reload_def calls)
      obtain o1 where "Reload_tags_loop s H tags ?tr1 = (o1, tr')"
        using lift_loop_cases[OF l] by (cases "Reload_tags_loop s H tags ?tr1") auto
      from Reload_tags_loop_rejections[OF this] lift_loop_cases[OF l] tagged
      show ?thesis by (auto simp: followed_by_skip)
    next
      case bare
      with assms None have "Reload_bare s H ?tr1 = (out, tr')"
        by (simp add: Reload_def calls)
      from Reload_bare_cases[OF this] bare
      show ?thesis by auto
    qed
  qed
qed

lemma Reload_bare_rejected:
  "Reload app refusing False [] [] =
     (Returned (Some ''Unit not found.''),
      [Log InfoLevel ''Reloading... app'' [], Connect None,
       Job ReloadOrRestartUnit ''app.service'' (Some ''Unit not found.''),
       Job ReloadOrRestartUnit ''app@default.service'' (Some ''Unit not found.'')])"
  by code_simp

lemma Reload_tags_rejected:
  "Reload app refusing False [''blue''] [] =
     (Blocked,
      [Log InfoLevel ''Reloading... app'' [], Connect None,
       Job ReloadOrRestartUnit ''app@blue.service'' (Some ''Unit not found.''),
       Log WarnLevel ''Unit not found.'' [], Recv None])"
  by code_simp

lemma Reload_all_rejected:
  "Reload app refusing True [] [] =
     (Returned (Some ''Unit not found.''),
      [Log InfoLevel ''Reloading... app'' [], Connect None, Connect None,
       ListUnits ''app*''
         (Inr [\<lparr>UnitName = ''app@1.service'', ActiveState = ''active'', SubState = ''running''\<rparr>,
               \<lparr>UnitName = ''app@2.service'', ActiveState = ''failed'', SubState = ''failed''\<rparr>]),
       Job ReloadOrRestartUnit ''app@1.service'' (Some ''Unit not found.'')])"
  by code_simp


text \<open>
  Without tags the first wording of this property fails: with both calls rejected, the
  error is returned and no warning is logged.
\<close>

theorem Reload_call_errors_counterexample:
  "fst (Reload app refusing False [] []) = Returned (Some ''Unit not found.'')
   \<and> Log WarnLevel ''Unit not found.'' [] \<notin> set (snd (Reload app refusing False [] []))"
  by (simp add: Reload_bare_rejected)

theorem Reload_call_errors_witness:
  "fst (Reload app refusing False [''blue''] []) = Blocked
   \<and> followed_by is_rejection rejection_warning (snd (Reload app refusing False [''blue''] []))
   \<and> fst (Reload app refusing True [] []) = Returned (Some ''Unit not found.'')
   \<and> last (snd (Reload app refusing True [] []))
       = Job ReloadOrRestartUnit ''app@1.service'' (Some ''Unit not found.'')
   \<and> fst (Reload app refusing False [] []) = Returned (Some ''Unit not found.'')"
  using Reload_call_errors[OF Reload_tags_rejected] Reload_call_errors[OF Reload_all_rejected]
    Reload_call_errors[OF Reload_bare_rejected]
  by (simp add: Reload_tags_rejected Reload_all_rejected Reload_bare_rejected)


subsection \<open>Connection failures\<close>

lemma Enable_loop_events:
  "\<exists>evs. Enable_loop s H origin tags tr = tr @ evs \<and> (\<forall>c. Connect c \<notin> set evs)"
proof (induction tags arbitrary: tr)
  case Nil
  then show ?case by simp
next
  case (Cons tag tags)
  obtain r where r: "os_Symlink H tr origin (wants_instance (Name s) tag) = r" by simp
  show ?case
  proof (cases r)
    case None
    with r Cons.IH[of "tr @ [OsSymlink origin (wants_instance (Name s) tag) None,
        Log InfoLevel ''Created symlink'' [(''target'', wants_instance (Name s) tag), (''origin'', origin)]]"]
    show ?thesis by (auto simp: calls)
  next
    case (Some err)
    with r Cons.IH[of "tr @ [OsSymlink origin (wants_instance (Name s) tag) (Some err),
        Log ErrorLevel ''Failed to create symlink''
          [(''origin'', origin), (''target'', wants_instance (Name s) tag), (''error'', err)]]"]
    show ?thesis by (auto simp: calls)
  qed
qed

lemma Disable_loop_events:
  "\<exists>evs. Disable_loop s H tags tr = tr @ evs \<and> (\<forall>c. Connect c \<notin> set evs)"
proof (induction tags arbitrary: tr)
  case Nil
  then show ?case by simp
next
  case (Cons tag tags)
  obtain r where r: "os_Remove H tr (wants_instance (Name s) tag) = r" by simp
  show ?case
  proof (cases r)
    case None
    with r Cons.IH[of "tr @ [OsRemove (wants_instance (Name s) tag) None]"]
    show ?thesis by (auto simp: calls)
  next
    case (Some err)
    with r Cons.IH[of "tr @ [OsRemove (wants_instance (Name s) tag) (Some err),
        Log ErrorLevel ''Failed to remove symlink'' [(''target'', wants_pattern), (''error'', err)]]"]
    show ?thesis by (auto simp: calls)
  qed
qed

lemma Enable_never_connects:
  "\<exists>evs. snd (Enable s H tags tr) = tr @ evs \<and> (\<forall>c. Connect c \<notin> set evs)"
proof -
  let ?o = "''/etc/systemd/system/'' @ Name s @ ''@.service''"
  obtain evs where
    "Enable_loop s H ?o (if length tags = 0 then [''default''] else tags) (tr @ [OsStat ?o (os_Stat H tr ?o)])
      = (tr @ [OsStat ?o (os_Stat H tr ?o)]) @ evs" "\<forall>c. Connect c \<notin> set evs"
    using Enable_loop_events by blast
  then show ?thesis
    by (auto simp: Enable_def fileExists_def calls split: sum.splits bool.splits option.splits)
qed

lemma Disable_never_connects:
  "\<exists>evs. snd (Disable s H tags tr) = tr @ evs \<and> (\<forall>c. Connect c \<notin> set evs)"
  using Disable_loop_events[of s H tags tr]
  by (auto simp: Disable_def calls split: option.splits)

lemma operations_without_bus:
  assumes "NewSystemConnectionContext H tr = Some e"
  shows "Start s H num tags tr = (Returned (Some e), tr @ [Connect (Some e)])"
    and "Stop s H all tags tr = (Returned (Some e), tr @ [Connect (Some e)])"
    and "Kill s H all tags tr = (Some e, tr @ [Connect (Some e)])"
    and "Restart s H all tags tr = (Returned (Some e), tr @ [Connect (Some e)])"
    and "Status s H sh tr = (Inl e, tr @ [Connect (Some e)])"
  using assms by (simp_all add: Start_def Stop_def Kill_def Restart_def Status_def calls)

lemma Reload_without_bus:
  assumes "NewSystemConnectionContext H (tr @ [Log InfoLevel (''Reloading... '' @ Name s) []]) = Some e"
  shows "Reload s H all tags tr =
     (Returned (Some e), tr @ [Log InfoLevel (''Reloading... '' @ Name s) [], Connect (Some e)])"
  using assms by (simp add: Reload_def calls)

lemma Install_without_bus:
  assumes "os_Executable H (tr @ [Log InfoLevel (''Install... '' @ Name s) []]) = Inr p"
    and "CreateUnit H multi (Name s) (Description s) p args = Inr buf"
    and "os_WriteFile H (tr @ [Log InfoLevel (''Install... '' @ Name s) [], OsExecutable (Inr p)])
           (UnitFile s multi) buf = None"
    and "NewSystemConnectionContext H
           (tr @ [Log InfoLevel (''Install... '' @ Name s) [], OsExecutable (Inr p),
                  OsWriteFile (UnitFile s multi) buf None]) = Some e"
  shows "Install s H multi args tr =
     (Some e, tr @ [Log InfoLevel (''Install... '' @ Name s) [], OsExecutable (Inr p),
                    OsWriteFile (UnitFile s multi) buf None, Connect (Some e)])"
  using assms by (simp add: Install_def calls)

lemma Remove_without_bus:
  assumes "NewSystemConnectionContext H (tr @ [Log InfoLevel (''Removing... '' @ Name s) []]) = Some e"
  shows "\<exists>r1 r2. Remove s H tr =
     (Returned (if r1 = None \<or> r2 = None then None else Some ''remove failed''),
      tr @ [Log InfoLevel (''Removing... '' @ Name s) [], Connect (Some e), Log WarnLevel e [],
            OsRemove (''/etc/systemd/system/'' @ Name s @ ''.service'') r1,
            OsRemove (''/etc/systemd/system/'' @ Name s @ ''@.service'') r2]
         @ (if r1 = None \<or> r2 = None then [Log InfoLevel (''Removed '' @ Name s) []] else []))"
  using assms by (auto simp: Remove_def Stop_def calls)


text \<open>
  C3, as amended. \<^verbatim>\<open>Start\<close>, \<^verbatim>\<open>Stop\<close>, \<^verbatim>\<open>Kill\<close>, \<^verbatim>\<open>Restart\<close> and \<^verbatim>\<open>Status\<close> connect
  before anything else, and when the connection fails they do nothing more and return
  its error as it is; \<^verbatim>\<open>Reload\<close> does the same after its first log line. \<^verbatim>\<open>Install\<close>
  connects only after it has written the unit file, and returns the error of a failed
  connection as it is. \<^verbatim>\<open>Remove\<close> logs the error of a failed connection as a warning
  and goes on to both deletions, which alone decide what it returns. \<^verbatim>\<open>Enable\<close> and
  \<^verbatim>\<open>Disable\<close> never connect.
\<close>

theorem connection_failure:
  "(NewSystemConnectionContext H tr = Some e \<longrightarrow>
       Start s H num tags tr = (Returned (Some e), tr @ [Connect (Some e)])
     \<and> Stop s H all tags tr = (Returned (Some e), tr @ [Connect (Some e)])
     \<and> Kill s H all tags tr = (Some e, tr @ [Connect (Some e)])
     \<and> Restart s H all tags tr = (Returned (Some e), tr @ [Connect (Some e)])
     \<and> Status s H sh tr = (Inl e, tr @ [Connect (Some e)]))
   \<and> (NewSystemConnectionContext H (tr @ [Log InfoLevel (''Reloading... '' @ Name s) []]) = Some e \<longrightarrow>
       Reload s H all tags tr =
         (Returned (Some e), tr @ [Log InfoLevel (''Reloading... '' @ Name s) [], Connect (Some e)]))
   \<and> (os_Executable H (tr @ [Log InfoLevel (''Install... '' @ Name s) []]) = Inr p
       \<and> CreateUnit H multi (Name s) (Description s) p args = Inr buf
       \<and> os_WriteFile H (tr @ [Log InfoLevel (''Install... '' @ Name s) [], OsExecutable (Inr p)])
            (UnitFile s multi) buf = None
       \<and> NewSystemConnectionContext H
            (tr @ [Log InfoLevel (''Install... '' @ Name s) [], OsExecutable (Inr p),
                   OsWriteFile (UnitFile s multi) buf None]) = Some e \<longrightarrow>
       Install s H multi args tr =
         (Some e, tr @ [Log InfoLevel (''Install... '' @ Name s) [], OsExecutable (Inr p),
                        OsWriteFile (UnitFile s multi) buf None, Connect (Some e)]))
   \<and> (NewSystemConnectionContext H (tr @ [Log InfoLevel (''Removing... '' @ Name s) []]) = Some e \<longrightarrow>
       (\<exists>r1 r2. Remove s H tr =
          (Returned (if r1 = None \<or> r2 = None then None else Some ''remove failed''),
           tr @ [Log InfoLevel (''Removing... '' @ Name s) [], Connect (Some e), Log WarnLevel e [],
                 OsRemove (''/etc/systemd/system/'' @ Name s @ ''.service'') r1,
                 OsRemove (''/etc/systemd/system/'' @ Name s @ ''@.service'') r2]
              @ (if r1 = None \<or> r2 = None then [Log InfoLevel (''Removed '' @ Name s) []] else []))))
   \<and> (\<exists>evs. snd (Enable s H tags tr) = tr @ evs \<and> (\<forall>c. Connect c \<notin> set evs))
   \<and> (\<exists>evs. snd (Disable s H tags tr) = tr @ evs \<and> (\<forall>c. Connect c \<notin> set evs))"
  using operations_without_bus[of H tr e] Reload_without_bus[of H tr s e all tags]
    Install_without_bus[of H tr s p multi args buf e] Remove_without_bus[of H tr s e]
    Enable_never_connects[of s H tags tr] Disable_never_connects[of s H tags tr]
  by blast


text \<open>
  On an unreachable bus \<^verbatim>\<open>Remove\<close> deletes both unit files and returns \<^verbatim>\<open>nil\<close>, not the
  error of the connection.
\<close>

theorem connection_failure_counterexample:
  "Remove app offline [] =
     (Returned None,
      [Log InfoLevel ''Removing... app'' [],
       Connect (Some ''dial unix /run/dbus/system_bus_socket: connect: connection refused''),
       Log WarnLevel ''dial unix /run/dbus/system_bus_socket: connect: connection refused'' [],
       OsRemove ''/etc/systemd/system/app.service'' None,
       OsRemove ''/etc/systemd/system/app@.service'' None,
       Log InfoLevel ''Removed app'' []])"
  by code_simp

theorem connection_failure_witness:
  "Start app offline 3 [''blue''] [] =
     (Returned (Some ''dial unix /run/dbus/system_bus_socket: connect: connection refused''),
      [Connect (Some ''dial unix /run/dbus/system_bus_socket: connect: connection refused'')])
   \<and> Status app offline True [] =
     (Inl ''dial unix /run/dbus/system_bus_socket: connect: connection refused'',
      [Connect (Some ''dial unix /run/dbus/system_bus_socket: connect: connection refused'')])
   \<and> Reload app offline True [''blue''] [] =
     (Returned (Some ''dial unix /run/dbus/system_bus_socket: connect: connection refused''),
      [Log InfoLevel ''Reloading... app'' [],
       Connect (Some ''dial unix /run/dbus/system_bus_socket: connect: connection refused'')])
   \<and> Install app offline False [] [] =
     (Some ''dial unix /run/dbus/system_bus_socket: connect: connection refused'',
      [Log InfoLevel ''Install... app'' [], OsExecutable (Inr ''/usr/local/bin/app''),
       OsWriteFile ''/etc/systemd/system/app.service'' ''[Unit]'' None,
       Connect (Some ''dial unix /run/dbus/system_bus_socket: connect: connection refused'')])
   \<and> fst (Remove app offline []) \<noteq>
       Returned (Some ''dial unix /run/dbus/system_bus_socket: connect: connection refused'')"
proof -
  let ?e = "''dial unix /run/dbus/system_bus_socket: connect: connection refused''"
  have host: "\<And>h. NewSystemConnectionContext offline h = Some ?e"
    "\<And>h. os_Executable offline h = Inr ''/usr/local/bin/app''"
    "\<And>multi name desc execPath args. CreateUnit offline multi name desc execPath args = Inr ''[Unit]''"
    "\<And>h p buf. os_WriteFile offline h p buf = None"
    by (simp_all add: offline_def calm_def)
  have descr: "Name app = ''app''" "UnitFile app False = ''/etc/systemd/system/app.service''"
    by (simp_all add: app_def New_def UnitFile_def)
  from connection_failure[where H = offline and tr = "[]" and s = app and num = 3
      and tags = "[''blue'']" and all = True and sh = True and multi = False and args = "[]"
      and p = "''/usr/local/bin/app''" and buf = "''[Unit]''" and e = ?e]
  show ?thesis
    by (auto simp: host descr split: if_splits)
qed


subsection \<open>Remove\<close>

lemma Stop_all_loop_removals: "removals (snd (Stop_all_loop H items tr)) = removals tr"
  by (induction items arbitrary: tr)
     (auto simp: calls removals_append split: option.splits)

lemma Stop_tags_loop_removals: "removals (snd (Stop_tags_loop s H tags tr)) = removals tr"
  by (induction tags arbitrary: tr)
     (auto simp: calls removals_append split: option.splits)

lemma Stop_removals: "removals (snd (Stop s H all tags tr)) = removals tr"
  by (auto simp: Stop_def Stop_bare_def Status_def calls removals_append lift_loop_snd
        Stop_all_loop_removals Stop_tags_loop_removals
      split: option.splits sum.splits)


lemma Stop_all_loop_returns:
  assumes "\<forall>h m name. chan_recv H (h @ [Job m name None]) \<noteq> None"
  shows "\<exists>tr'. Stop_all_loop H items tr = (Returned (), tr')"
proof (induction items arbitrary: tr)
  case Nil
  show ?case by simp
next
  case (Cons item items)
  show ?case
  proof (cases "job_call H tr StopUnit (UnitName item)")
    case (Some err)
    then show ?thesis by (simp add: calls Cons.IH)
  next
    case None
    from assms obtain v where "chan_recv H (tr @ [Job StopUnit (UnitName item) None]) = Some v"
      by fastforce
    with None show ?thesis by (simp add: calls Cons.IH)
  qed
qed

lemma Stop_all_returns:
  assumes "\<forall>h m name. chan_recv H (h @ [Job m name None]) \<noteq> None"
  shows "\<exists>err tr'. Stop s H True tags tr = (Returned err, tr')"
proof (cases "NewSystemConnectionContext H tr")
  case (Some err)
  then show ?thesis by (simp add: Stop_def calls)
next
  case None
  let ?tr0 = "tr @ [Connect None]"
  obtain r tr1 where st: "Status s H False ?tr0 = (r, tr1)"
    by (cases "Status s H False ?tr0")
  show ?thesis
  proof (cases r)
    case (Inl err)
    with None st show ?thesis by (simp add: Stop_def calls)
  next
    case (Inr items)
    obtain t where "Stop_all_loop H items tr1 = (Returned (), t)"
      using Stop_all_loop_returns[OF assms] by blast
    with None st Inr show ?thesis by (simp add: Stop_def calls lift_loop_def)
  qed
qed

lemma Remove_returns:
  assumes "\<forall>h m name. chan_recv H (h @ [Job m name None]) \<noteq> None"
  shows "\<exists>r tr'. Remove s H tr = (Returned r, tr')"
proof -
  let ?tr0 = "tr @ [Log InfoLevel (''Removing... '' @ Name s) []]"
  obtain err tr1 where "Stop s H True [] ?tr0 = (Returned err, tr1)"
    using Stop_all_returns[OF assms] by blast
  then show ?thesis
    by (simp add: Remove_def calls)
qed

lemma Remove_returned_deletions:
  assumes "Remove s H tr = (Returned r, tr')"
  shows "\<exists>r1 r2.
      removals tr' = removals tr @
        [(''/etc/systemd/system/'' @ Name s @ ''.service'', r1),
         (''/etc/systemd/system/'' @ Name s @ ''@.service'', r2)]
      \<and> (r = None \<longleftrightarrow> r1 = None \<or> r2 = None)
      \<and> (r = Some ''remove failed'' \<longleftrightarrow> r1 \<noteq> None \<and> r2 \<noteq> None)"
proof -
  let ?tr0 = "tr @ [Log InfoLevel (''Removing... '' @ Name s) []]"
  obtain o1 tr1 where st: "Stop s H True [] ?tr0 = (o1, tr1)"
    by (cases "Stop s H True [] ?tr0")
  have keep: "removals tr1 = removals tr"
    using Stop_removals[of s H True "[]" ?tr0] st by (simp add: removals_append)
  from assms st obtain err where o1: "o1 = Returned err"
    by (cases o1) (auto simp: Remove_def calls)
  let ?tr2 = "case err of Some e \<Rightarrow> tr1 @ [Log WarnLevel e []] | None \<Rightarrow> tr1"
  let ?p1 = "''/etc/systemd/system/'' @ Name s @ ''.service''"
  let ?p2 = "''/etc/systemd/system/'' @ Name s @ ''@.service''"
  let ?r1 = "os_Remove H ?tr2 ?p1"
  let ?r2 = "os_Remove H (?tr2 @ [OsRemove ?p1 ?r1]) ?p2"
  have k2: "removals ?tr2 = removals tr"
    using keep by (simp add: removals_append split: option.splits)
  show ?thesis
  proof (intro exI)
    show "removals tr' = removals tr @ [(?p1, ?r1), (?p2, ?r2)]
      \<and> (r = None \<longleftrightarrow> ?r1 = None \<or> ?r2 = None)
      \<and> (r = Some ''remove failed'' \<longleftrightarrow> ?r1 \<noteq> None \<and> ?r2 \<noteq> None)"
      using assms st o1 k2
      by (cases err; cases ?r1; cases ?r2) (auto simp: Remove_def calls removals_append)
  qed
qed

text \<open>
  C4. On a host whose channel delivers a result after every accepted job, \<^verbatim>\<open>Remove\<close>
  returns. Whenever it returns, it has attempted exactly two deletions, the
  single-instance unit file and then the templated one; it returns \<^verbatim>\<open>nil\<close> if and only
  if at least one of the two succeeded, and the error \<^verbatim>\<open>remove failed\<close> if and only if
  both failed.
\<close>

theorem Remove_deletions:
  "((\<forall>h m name. chan_recv H (h @ [Job m name None]) \<noteq> None) \<longrightarrow>
      (\<exists>r tr'. Remove s H tr = (Returned r, tr')))
   \<and> (\<forall>r tr'. Remove s H tr = (Returned r, tr') \<longrightarrow>
        (\<exists>r1 r2.
           removals tr' = removals tr @
             [(''/etc/systemd/system/'' @ Name s @ ''.service'', r1),
              (''/etc/systemd/system/'' @ Name s @ ''@.service'', r2)]
           \<and> (r = None \<longleftrightarrow> r1 = None \<or> r2 = None)
           \<and> (r = Some ''remove failed'' \<longleftrightarrow> r1 \<noteq> None \<and> r2 \<noteq> None)))"
  using Remove_returns[of H s tr] Remove_returned_deletions[of s H tr] by blast

lemma Remove_half_installed:
  "Remove app half_installed [] =
     (Returned None,
      [Log InfoLevel ''Removing... app'' [], Connect None, Connect None,
       ListUnits ''app*''
         (Inr [\<lparr>UnitName = ''app@1.service'', ActiveState = ''active'', SubState = ''running''\<rparr>,
               \<lparr>UnitName = ''app@2.service'', ActiveState = ''failed'', SubState = ''failed''\<rparr>]),
       Job StopUnit ''app@1.service'' None, Recv (Some ''done''),
       Log InfoLevel ''Stop [ app@1.service ] done'' [],
       Job StopUnit ''app@2.service'' None, Recv (Some ''done''),
       Log InfoLevel ''Stop [ app@2.service ] done'' [],
       OsRemove ''/etc/systemd/system/app.service'' None,
       OsRemove ''/etc/systemd/system/app@.service''
         (Some ''remove /etc/systemd/system/app@.service: no such file or directory''),
       Log InfoLevel ''Removed app'' []])"
  by code_simp

theorem Remove_deletions_witness:
  "(\<forall>h m name. chan_recv half_installed (h @ [Job m name None]) \<noteq> None)
   \<and> fst (Remove app half_installed []) = Returned None
   \<and> removals (snd (Remove app half_installed [])) =
       [(''/etc/systemd/system/app.service'', None),
        (''/etc/systemd/system/app@.service'',
         Some ''remove /etc/systemd/system/app@.service: no such file or directory'')]"
proof -
  have r: "\<forall>h m name. chan_recv half_installed (h @ [Job m name None]) \<noteq> None"
    by (simp add: half_installed_def calm_def)
  from Remove_deletions[of half_installed app "[]"] r Remove_half_installed
  show ?thesis by auto
qed


subsection \<open>Enable\<close>

lemma Enable_loop_symlinks:
  "\<exists>evs. Enable_loop s H origin tags tr = tr @ evs
     \<and> symlinks evs = map (\<lambda>tag. (origin, wants_instance (Name s) tag)) tags
     \<and> followed_by is_symlink symlink_log evs"
proof (induction tags arbitrary: tr)
  case Nil
  then show ?case by simp
next
  case (Cons tag tags)
  let ?t = "wants_instance (Name s) tag"
  show ?case
  proof (cases "os_Symlink H tr origin ?t")
    case None
    with Cons.IH[of "tr @ [OsSymlink origin ?t None,
        Log InfoLevel ''Created symlink'' [(''target'', ?t), (''origin'', origin)]]"]
    show ?thesis by (auto simp: calls followed_by_skip)
  next
    case (Some err)
    with Cons.IH[of "tr @ [OsSymlink origin ?t (Some err),
        Log ErrorLevel ''Failed to create symlink''
          [(''origin'', origin), (''target'', ?t), (''error'', err)]]"]
    show ?thesis by (auto simp: calls followed_by_skip)
  qed
qed


text \<open>
  C7. When the templated unit file exists, \<^verbatim>\<open>Enable\<close> attempts one symlink from it per
  tag, for the single tag \<^verbatim>\<open>default\<close> when no tags are given, and returns \<^verbatim>\<open>nil\<close>.
  Otherwise, when the single-instance unit file exists, it attempts the one symlink from
  that file and returns \<^verbatim>\<open>nil\<close>. Otherwise it attempts none and returns the error
  \<^verbatim>\<open>service is not installed\<close>. Every attempt is followed at once by its log line, at
  error severity with the error when it failed.
\<close>

theorem Enable_branches:
  assumes "Enable s H tags tr = (r, tr')"
  shows "\<exists>evs. tr' = tr @ evs
     \<and> followed_by is_symlink symlink_log evs
     \<and> (fst (fileExists H (''/etc/systemd/system/'' @ Name s @ ''@.service'') tr) \<longrightarrow>
          r = None
          \<and> symlinks evs =
              map (\<lambda>tag. (''/etc/systemd/system/'' @ Name s @ ''@.service'',
                           ''/etc/systemd/system/multi-user.target.wants/'' @ Name s @ ''@'' @ tag @ ''.service''))
                  (if tags = [] then [''default''] else tags))
     \<and> (\<not> fst (fileExists H (''/etc/systemd/system/'' @ Name s @ ''@.service'') tr) \<longrightarrow>
          (fst (fileExists H (''/etc/systemd/system/'' @ Name s @ ''.service'')
                  (snd (fileExists H (''/etc/systemd/system/'' @ Name s @ ''@.service'') tr))) \<longrightarrow>
             r = None
             \<and> symlinks evs =
                 [(''/etc/systemd/system/'' @ Name s @ ''.service'',
                   ''/etc/systemd/system/multi-user.target.wants/'' @ Name s @ ''.service'')])
          \<and> (\<not> fst (fileExists H (''/etc/systemd/system/'' @ Name s @ ''.service'')
                  (snd (fileExists H (''/etc/systemd/system/'' @ Name s @ ''@.service'') tr))) \<longrightarrow>
             r = Some ''service is not installed'' \<and> symlinks evs = []))"
proof -
  let ?o = "''/etc/systemd/system/'' @ Name s @ ''@.service''"
  let ?tr1 = "tr @ [OsStat ?o (os_Stat H tr ?o)]"
  obtain evs where loop:
    "Enable_loop s H ?o (if length tags = 0 then [''default''] else tags) ?tr1 = ?tr1 @ evs"
    "symlinks evs = map (\<lambda>tag. (?o, wants_instance (Name s) tag))
                      (if length tags = 0 then [''default''] else tags)"
    "followed_by is_symlink symlink_log evs"
    using Enable_loop_symlinks by blast
  show ?thesis
  proof (cases "fst (fileExists H ?o tr)")
    case True
    with assms loop show ?thesis
      by (auto simp: Enable_def fileExists_def calls followed_by_skip wants_instance_def
               split: sum.splits bool.splits)
  next
    case False
    with assms show ?thesis
      by (auto simp: Enable_def fileExists_def calls followed_by_skip
               split: sum.splits bool.splits option.splits)
  qed
qed

lemma Enable_calm:
  "Enable app calm [] [] =
     (None,
      [OsStat ''/etc/systemd/system/app@.service'' (Inr False),
       OsSymlink ''/etc/systemd/system/app@.service''
         ''/etc/systemd/system/multi-user.target.wants/app@default.service'' None,
       Log InfoLevel ''Created symlink''
         [(''target'', ''/etc/systemd/system/multi-user.target.wants/app@default.service''),
          (''origin'', ''/etc/systemd/system/app@.service'')]])"
  by code_simp

lemma Enable_single_installed:
  "Enable app single_installed [''blue''] [] =
     (None,
      [OsStat ''/etc/systemd/system/app@.service''
         (Inl ''stat /etc/systemd/system/app@.service: no such file or directory''),
       OsStat ''/etc/systemd/system/app.service'' (Inr False),
       OsSymlink ''/etc/systemd/system/app.service''
         ''/etc/systemd/system/multi-user.target.wants/app.service'' None,
       Log InfoLevel ''Created symlink''
         [(''target'', ''/etc/systemd/system/multi-user.target.wants/app.service''),
          (''origin'', ''/etc/systemd/system/app.service'')]])"
  by code_simp

lemma Enable_not_installed:
  "Enable app not_installed [] [] =
     (Some ''service is not installed'',
      [OsStat ''/etc/systemd/system/app@.service''
         (Inl ''stat /etc/systemd/system/app@.service: no such file or directory''),
       OsStat ''/etc/systemd/system/app.service''
         (Inl ''stat /etc/systemd/system/app.service: no such file or directory'')])"
  by code_simp

lemma Enable_read_only:
  "Enable app read_only [''blue''] [] =
     (None,
      [OsStat ''/etc/systemd/system/app@.service'' (Inr False),
       OsSymlink ''/etc/systemd/system/app@.service''
         ''/etc/systemd/system/multi-user.target.wants/app@blue.service''
         (Some ''symlink /etc/systemd/system/app@.service /etc/systemd/system/multi-user.target.wants/app@blue.service: read-only file system''),
       Log ErrorLevel ''Failed to create symlink''
         [(''origin'', ''/etc/systemd/system/app@.service''),
          (''target'', ''/etc/systemd/system/multi-user.target.wants/app@blue.service''),
          (''error'', ''symlink /etc/systemd/system/app@.service /etc/systemd/system/multi-user.target.wants/app@blue.service: read-only file system'')]])"
  by code_simp

theorem Enable_branches_witness:
  "fst (fileExists calm ''/etc/systemd/system/app@.service'' [])
   \<and> fst (Enable app calm [] []) = None
   \<and> symlinks (snd (Enable app calm [] [])) =
       [(''/etc/systemd/system/app@.service'',
         ''/etc/systemd/system/multi-user.target.wants/app@default.service'')]
   \<and> \<not> fst (fileExists single_installed ''/etc/systemd/system/app@.service'' [])
   \<and> fst (Enable app single_installed [''blue''] []) = None
   \<and> symlinks (snd (Enable app single_installed [''blue''] [])) =
       [(''/etc/systemd/system/app.service'',
         ''/etc/systemd/system/multi-user.target.wants/app.service'')]
   \<and> fst (Enable app not_installed [] []) = Some ''service is not installed''
   \<and> symlinks (snd (Enable app not_installed [] [])) = []
   \<and> fst (Enable app read_only [''blue''] []) = None
   \<and> followed_by is_symlink symlink_log (snd (Enable app read_only [''blue''] []))"
proof -
  have ex: "fst (fileExists calm ''/etc/systemd/system/app@.service'' [])"
    "\<not> fst (fileExists single_installed ''/etc/systemd/system/app@.service'' [])"
    by (simp_all add: fileExists_def calls calm_def single_installed_def)
  from Enable_branches[OF Enable_calm] Enable_branches[OF Enable_single_installed]
    Enable_branches[OF Enable_not_installed] Enable_branches[OF Enable_read_only] ex
  show ?thesis
    by (simp add: Enable_calm Enable_single_installed Enable_not_installed Enable_read_only)
qed


subsection \<open>Disable\<close>

lemma Disable_loop_removals:
  "\<exists>evs. Disable_loop s H tags tr = tr @ evs
     \<and> map fst (removals evs) = map (wants_instance (Name s)) tags
     \<and> followed_by is_failed_removal (removal_log ErrorLevel) evs"
proof (induction tags arbitrary: tr)
  case Nil
  then show ?case by simp
next
  case (Cons tag tags)
  let ?t = "wants_instance (Name s) tag"
  show ?case
  proof (cases "os_Remove H tr ?t")
    case None
    with Cons.IH[of "tr @ [OsRemove ?t None]"]
    show ?thesis by (auto simp: calls followed_by_skip)
  next
    case (Some err)
    with Cons.IH[of "tr @ [OsRemove ?t (Some err),
        Log ErrorLevel ''Failed to remove symlink'' [(''target'', wants_pattern), (''error'', err)]]"]
    show ?thesis by (auto simp: calls followed_by_skip)
  qed
qed


text \<open>
  C8, as amended. \<^verbatim>\<open>Disable\<close> always returns \<^verbatim>\<open>nil\<close>. Without tags it attempts exactly
  two removals, the \<^verbatim>\<open>@default\<close> symlink and then the bare one, and a removal that fails is
  followed at once by a log line at warning severity. With tags it attempts exactly one
  removal per tag, in their order, and a removal that fails is followed at once by a log
  line at error severity.
\<close>

theorem Disable_removals:
  assumes "Disable s H tags tr = (r, tr')"
  shows "r = None \<and> (\<exists>evs. tr' = tr @ evs
     \<and> (tags = [] \<longrightarrow>
          map fst (removals evs) =
            [''/etc/systemd/system/multi-user.target.wants/'' @ Name s @ ''@default.service'',
             ''/etc/systemd/system/multi-user.target.wants/'' @ Name s @ ''.service'']
          \<and> followed_by is_failed_removal (removal_log WarnLevel) evs)
     \<and> (tags \<noteq> [] \<longrightarrow>
          map fst (removals evs) =
            map (\<lambda>tag. ''/etc/systemd/system/multi-user.target.wants/'' @ Name s @ ''@'' @ tag @ ''.service'') tags
          \<and> followed_by is_failed_removal (removal_log ErrorLevel) evs))"
proof (cases "tags = []")
  case True
  with assms show ?thesis
    by (auto simp: Disable_def calls followed_by_skip split: option.splits)
next
  case False
  with assms Disable_loop_removals[of s H tags tr] show ?thesis
    by (auto simp: Disable_def wants_instance_def)
qed

lemma Disable_not_enabled_tag:
  "Disable app not_enabled [''blue''] [] =
     (None,
      [OsRemove ''/etc/systemd/system/multi-user.target.wants/app@blue.service''
         (Some ''remove /etc/systemd/system/multi-user.target.wants/app@blue.service: no such file or directory''),
       Log ErrorLevel ''Failed to remove symlink''
         [(''target'', ''/etc/systemd/system/multi-user.target.wants/%s@%s.service''),
          (''error'', ''remove /etc/systemd/system/multi-user.target.wants/app@blue.service: no such file or directory'')]])"
  by code_simp

lemma Disable_not_enabled:
  "Disable app not_enabled [] [] =
     (None,
      [OsRemove ''/etc/systemd/system/multi-user.target.wants/app@default.service''
         (Some ''remove /etc/systemd/system/multi-user.target.wants/app@default.service: no such file or directory''),
       Log WarnLevel ''Failed to remove symlink''
         [(''target'', ''/etc/systemd/system/multi-user.target.wants/%s@%s.service''),
          (''error'', ''remove /etc/systemd/system/multi-user.target.wants/app@default.service: no such file or directory'')],
       OsRemove ''/etc/systemd/system/multi-user.target.wants/app.service''
         (Some ''remove /etc/systemd/system/multi-user.target.wants/app.service: no such file or directory''),
       Log WarnLevel ''Failed to remove symlink''
         [(''target'', ''/etc/systemd/system/multi-user.target.wants/%s@%s.service''),
          (''error'', ''remove /etc/systemd/system/multi-user.target.wants/app.service: no such file or directory'')]])"
  by code_simp


text \<open>
  With a tag whose symlink is missing, the one log line is at error severity, not a
  warning.
\<close>

theorem Disable_removals_counterexample:
  "logs (snd (Disable app not_enabled [''blue''] [])) =
     [(ErrorLevel, ''Failed to remove symlink'',
       [(''target'', ''/etc/systemd/system/multi-user.target.wants/%s@%s.service''),
        (''error'', ''remove /etc/systemd/system/multi-user.target.wants/app@blue.service: no such file or directory'')])]"
  by (simp add: Disable_not_enabled_tag)

theorem Disable_removals_witness:
  "fst (Disable app not_enabled [] []) = None
   \<and> map fst (removals (snd (Disable app not_enabled [] []))) =
       [''/etc/systemd/system/multi-user.target.wants/app@default.service'',
        ''/etc/systemd/system/multi-user.target.wants/app.service'']
   \<and> followed_by is_failed_removal (removal_log WarnLevel) (snd (Disable app not_enabled [] []))
   \<and> fst (Disable app not_enabled [''blue''] []) = None
   \<and> map fst (removals (snd (Disable app not_enabled [''blue''] []))) =
       [''/etc/systemd/system/multi-user.target.wants/app@blue.service'']
   \<and> followed_by is_failed_removal (removal_log ErrorLevel) (snd (Disable app not_enabled [''blue''] []))"
  using Disable_removals[OF Disable_not_enabled] Disable_removals[OF Disable_not_enabled_tag]
  by (simp add: Disable_not_enabled Disable_not_enabled_tag)


subsection \<open>Status\<close>

lemma Status_show_loop_lines:
  "Status_show_loop items tr =
     tr @ map (\<lambda>item. Log (if SubState item = ''running'' then InfoLevel else WarnLevel) ''Status''
                         [(''name'', UnitName item), (''active'', ActiveState item),
                          (''sub'', SubState item)]) items"
  by (induction items arbitrary: tr) (simp_all add: calls)


text \<open>
  C9. \<^verbatim>\<open>Status\<close> without \<^verbatim>\<open>show\<close> logs nothing. The list it returns is the list the
  manager gave for the pattern \<open><name>*\<close>, and when it returns one, what it did is: connect,
  query, and with \<^verbatim>\<open>show\<close> one log line per unit of that list, in the order of the list,
  at informational severity for a unit whose sub-state is \<^verbatim>\<open>running\<close> and at warning
  severity for any other. When it returns an error it has logged nothing.
\<close>

theorem Status_logging:
  assumes "Status s H sh tr = (r, tr')"
  shows "\<exists>evs. tr' = tr @ evs
     \<and> (\<not> sh \<longrightarrow> logs evs = [])
     \<and> (\<forall>items. ListUnits (Name s @ ''*'') (Inr items) \<in> set evs \<longrightarrow> r = Inr items)
     \<and> (\<forall>items. r = Inr items \<longrightarrow>
          evs = Connect None # ListUnits (Name s @ ''*'') (Inr items) #
                (if sh
                 then map (\<lambda>item. Log (if SubState item = ''running'' then InfoLevel else WarnLevel)
                                     ''Status''
                                     [(''name'', UnitName item), (''active'', ActiveState item),
                                      (''sub'', SubState item)]) items
                 else []))
     \<and> (\<forall>e. r = Inl e \<longrightarrow> logs evs = [])"
  using assms
  by (auto simp: Status_def calls Status_show_loop_lines split: option.splits sum.splits if_splits)

lemma Status_calm:
  "Status app calm True [] =
     (Inr [\<lparr>UnitName = ''app@1.service'', ActiveState = ''active'', SubState = ''running''\<rparr>,
           \<lparr>UnitName = ''app@2.service'', ActiveState = ''failed'', SubState = ''failed''\<rparr>],
      [Connect None,
       ListUnits ''app*''
         (Inr [\<lparr>UnitName = ''app@1.service'', ActiveState = ''active'', SubState = ''running''\<rparr>,
               \<lparr>UnitName = ''app@2.service'', ActiveState = ''failed'', SubState = ''failed''\<rparr>]),
       Log InfoLevel ''Status''
         [(''name'', ''app@1.service''), (''active'', ''active''), (''sub'', ''running'')],
       Log WarnLevel ''Status''
         [(''name'', ''app@2.service''), (''active'', ''failed''), (''sub'', ''failed'')]])"
  by code_simp

lemma Status_calm_quiet:
  "Status app calm False [] =
     (Inr [\<lparr>UnitName = ''app@1.service'', ActiveState = ''active'', SubState = ''running''\<rparr>,
           \<lparr>UnitName = ''app@2.service'', ActiveState = ''failed'', SubState = ''failed''\<rparr>],
      [Connect None,
       ListUnits ''app*''
         (Inr [\<lparr>UnitName = ''app@1.service'', ActiveState = ''active'', SubState = ''running''\<rparr>,
               \<lparr>UnitName = ''app@2.service'', ActiveState = ''failed'', SubState = ''failed''\<rparr>])])"
  by code_simp

theorem Status_logging_witness:
  "logs (snd (Status app calm False [])) = []
   \<and> fst (Status app calm False []) = fst (Status app calm True [])
   \<and> logs (snd (Status app calm True [])) =
       [(InfoLevel, ''Status'',
         [(''name'', ''app@1.service''), (''active'', ''active''), (''sub'', ''running'')]),
        (WarnLevel, ''Status'',
         [(''name'', ''app@2.service''), (''active'', ''failed''), (''sub'', ''failed'')])]"
  using Status_logging[OF Status_calm] Status_logging[OF Status_calm_quiet]
  by (simp add: Status_calm Status_calm_quiet)


subsection \<open>The privilege check\<close>

text \<open>
  C10, as amended. Each of the eleven commands, \<^verbatim>\<open>status\<close> and \<^verbatim>\<open>unit\<close> among them, has
  the shared check as its hook. The check passes exactly when the lookup of the current
  user succeeds and the Uid or the Gid of that user is \<^verbatim>\<open>0\<close>, and then the body runs after
  it. When the lookup succeeds and neither is \<^verbatim>\<open>0\<close>, the command returns
  \<^verbatim>\<open>root privileges required\<close>; when the lookup fails, the command returns the error of
  the lookup. In both cases nothing but the lookup has happened.
\<close>

theorem privilege_check:
  "PersistentPreRunE c = Some persistentPreRunE
   \<and> (fst (persistentPreRunE H tr) = None \<longleftrightarrow>
        (\<exists>u. user_Current H tr = Inr u \<and> (Uid u = ''0'' \<or> Gid u = ''0'')))
   \<and> (\<forall>u. user_Current H tr = Inr u \<longrightarrow>
        (Uid u = ''0'' \<or> Gid u = ''0'' \<longrightarrow>
           execute c s H fl args tr = RunE c s H fl args (tr @ [UserCurrent (Inr u)]))
      \<and> (\<not> (Uid u = ''0'' \<or> Gid u = ''0'') \<longrightarrow>
           execute c s H fl args tr =
             (Returned (Some ''root privileges required''), tr @ [UserCurrent (Inr u)])))
   \<and> (\<forall>err. user_Current H tr = Inl err \<longrightarrow>
        execute c s H fl args tr = (Returned (Some err), tr @ [UserCurrent (Inl err)]))"
proof -
  have hook: "PersistentPreRunE c = Some persistentPreRunE"
    by (cases c) simp_all
  show ?thesis
  proof (cases "user_Current H tr")
    case (Inl err)
    with hook show ?thesis
      by (simp add: execute_def persistentPreRunE_def calls)
  next
    case (Inr u)
    with hook show ?thesis
      by (simp add: execute_def persistentPreRunE_def calls)
  qed
qed

text \<open>
  On a host where the lookup fails the check does not pass, and what the command returns
  is the error of the lookup.
\<close>

theorem privilege_check_counterexample:
  "execute statusCmd app nobody no_flags [] [] =
     (Returned (Some ''user: unknown userid 1000''),
      [UserCurrent (Inl ''user: unknown userid 1000'')])"
  by code_simp

theorem privilege_check_witness:
  "user_Current guest [] = Inr \<lparr>Uid = ''1000'', Gid = ''1000''\<rparr>
   \<and> fst (persistentPreRunE guest []) \<noteq> None
   \<and> execute statusCmd app guest no_flags [] [] =
       (Returned (Some ''root privileges required''),
        [UserCurrent (Inr \<lparr>Uid = ''1000'', Gid = ''1000''\<rparr>)])
   \<and> execute unitCmd app guest no_flags [] [] =
       (Returned (Some ''root privileges required''),
        [UserCurrent (Inr \<lparr>Uid = ''1000'', Gid = ''1000''\<rparr>)])
   \<and> user_Current staff [] = Inr \<lparr>Uid = ''1000'', Gid = ''0''\<rparr>
   \<and> fst (persistentPreRunE staff []) = None
   \<and> execute statusCmd app staff no_flags [] [] =
       RunE statusCmd app staff no_flags [] [UserCurrent (Inr \<lparr>Uid = ''1000'', Gid = ''0''\<rparr>)]
   \<and> user_Current nobody [] = Inl ''user: unknown userid 1000''
   \<and> fst (persistentPreRunE nobody []) \<noteq> None
   \<and> execute removeCmd app nobody no_flags [] [] =
       (Returned (Some ''user: unknown userid 1000''),
        [UserCurrent (Inl ''user: unknown userid 1000'')])"
proof -
  have g: "user_Current guest [] = Inr \<lparr>Uid = ''1000'', Gid = ''1000''\<rparr>"
    by (simp add: guest_def)
  have w: "user_Current staff [] = Inr \<lparr>Uid = ''1000'', Gid = ''0''\<rparr>"
    by (simp add: staff_def)
  have n: "user_Current nobody [] = Inl ''user: unknown userid 1000''"
    by (simp add: nobody_def)
  from privilege_check[of statusCmd guest "[]" app no_flags "[]"]
    privilege_check[of unitCmd guest "[]" app no_flags "[]"]
    privilege_check[of statusCmd staff "[]" app no_flags "[]"]
    privilege_check[of removeCmd nobody "[]" app no_flags "[]"]
    g w n
  show ?thesis by simp
qed


subsection \<open>Kill without tags\<close>

lemma Kill_without_tags:
  "NewSystemConnectionContext H tr = None \<Longrightarrow>
   Kill s H False [] tr =
     (None, tr @ [Connect None, KillUnit (Name s @ ''default.service'') 9,
                  KillUnit (Name s @ ''@default.service'') 9])"
  by (simp add: Kill_def calls)

text \<open>
  C1. Without tags and without \<^verbatim>\<open>all\<close>, \<^verbatim>\<open>Kill\<close> on the service \<^verbatim>\<open>app\<close> signals
  \<^verbatim>\<open>appdefault.service\<close> and then \<^verbatim>\<open>app@default.service\<close>: the bare name
  \<^verbatim>\<open>app.service\<close> is never sent to the manager.
\<close>

theorem Kill_bare_names:
  "Kill app calm False [] [] =
     (None, [Connect None, KillUnit ''appdefault.service'' 9, KillUnit ''app@default.service'' 9])"
  by code_simp


text \<open>\<^verbatim>\<open>Stop\<close> in the same situation sends the bare name and then \<^verbatim>\<open>@default\<close>.\<close>

lemma Stop_bare_names:
  "Stop app refusing False [] [] =
     (Returned (Some ''Unit not found.''),
      [Connect None, Job StopUnit ''app.service'' (Some ''Unit not found.''),
       Job StopUnit ''app@default.service'' (Some ''Unit not found.'')])"
  by code_simp

end
